theory Spec2Isabelle
  imports Main "HOL-Library.Word"
begin

unbundle bit_operations_syntax

section \<open>Bytes, slices and errors\<close>

text \<open>
  A Python \<open>bytes\<close> object is a list of 8-bit words. Unsigned quantities read from the
  buffer (offsets, counts, indices) are never negative and are natural numbers; values
  read with \<open>signed=True\<close> are integers.
\<close>

type_synonym byte = "8 word"

text \<open>
  The exceptions the parser can raise: its own \<open>BadDexFileError\<close> and the built-in ones
  of the interpreter.
\<close>

datatype error =
    BadDexFileError
  | IndexError
  | UnicodeDecodeError
  | ValueError
  | AttributeError
  | NameError
  | TypeError

text \<open>Sequencing of fallible steps: the first exception aborts the rest.\<close>

definition bind :: "error + 'a \<Rightarrow> ('a \<Rightarrow> error + 'b) \<Rightarrow> error + 'b" where
  "bind m f = (case m of Inl e \<Rightarrow> Inl e | Inr x \<Rightarrow> f x)"

text \<open>\<open>data[a:b]\<close> and \<open>data[a:]\<close> for non-negative bounds: a slice never raises.\<close>

definition py_slice :: "'a list \<Rightarrow> nat \<Rightarrow> nat \<Rightarrow> 'a list" where
  "py_slice xs a b = take (b - a) (drop a xs)"

text \<open>\<open>xs[i]\<close> for a non-negative index: out of range raises \<open>IndexError\<close>.\<close>

definition getitem :: "'a list \<Rightarrow> nat \<Rightarrow> error + 'a" where
  "getitem xs i = (if i < length xs then Inr (xs ! i) else Inl IndexError)"

text \<open>\<open>int.from_bytes(bs, "little")\<close>; the empty slice reads as 0.\<close>

fun from_bytes :: "byte list \<Rightarrow> nat" where
  "from_bytes [] = 0"
| "from_bytes (b # bs) = unat b + 256 * from_bytes bs"

text \<open>\<open>int.from_bytes(bs, "little", signed=True)\<close>: two's complement on the py_slice's width.\<close>

definition from_bytes_signed :: "byte list \<Rightarrow> int" where
  "from_bytes_signed bs =
     (let v = int (from_bytes bs); w = 8 * length bs
      in if bs \<noteq> [] \<and> 2 ^ (w - 1) \<le> v then v - 2 ^ w else v)"

text \<open>\<open>range(start, stop, step)\<close> for \<open>0 < step\<close>, as the list it iterates over.\<close>

definition range3 :: "nat \<Rightarrow> nat \<Rightarrow> nat \<Rightarrow> nat list" where
  "range3 start stop step =
     map (\<lambda>k. start + k * step) [0 ..< (stop - start + step - 1) div step]"

text \<open>A list comprehension whose element constructor can raise.\<close>

fun comprehend :: "('a \<Rightarrow> error + 'b) \<Rightarrow> 'a list \<Rightarrow> error + 'b list" where
  "comprehend f [] = Inr []"
| "comprehend f (x # xs) =
     bind (f x) (\<lambda>y. bind (comprehend f xs) (\<lambda>ys. Inr (y # ys)))"

section \<open>Variable-length integers\<close>

record Uleb128 =
  uleb_data :: "byte list"
  uleb_size :: nat

text \<open>
  The loop of \<open>Uleb128.__init__\<close> over \<open>enumerate(data)\<close>: the result is the value of
  \<open>size\<close> when the loop ends (0 when it runs off the end of the data).
\<close>

fun uleb_scan :: "nat \<Rightarrow> byte list \<Rightarrow> error + nat" where
  "uleb_scan idx [] = Inr 0"
| "uleb_scan idx (b # bs) =
     (if b AND 0x80 = 0 then Inr (idx + 1)
      else if idx = 4 then Inl BadDexFileError
      else uleb_scan (idx + 1) bs)"

definition Uleb128_init :: "byte list \<Rightarrow> error + Uleb128" where
  "Uleb128_init data =
     bind (uleb_scan 0 data)
       (\<lambda>size. Inr \<lparr>uleb_data = py_slice data 0 size, uleb_size = size\<rparr>)"

text \<open>\<open>Uleb128.__int__\<close>: the loop over \<open>reversed(self.data)\<close>.\<close>

definition Uleb128_int :: "Uleb128 \<Rightarrow> nat" where
  "Uleb128_int u =
     fold (\<lambda>b value. (push_bit 7 value) OR unat (b AND 0x7f)) (rev (uleb_data u)) 0"


section \<open>Library functions used by the parser\<close>

text \<open>
  \<open>zlib.adler32\<close> (RFC 1950): two running sums modulo 65521, the first starting at 1,
  combined as \<open>(b << 16) | a\<close>.
\<close>

definition adler32_step :: "byte \<Rightarrow> nat \<times> nat \<Rightarrow> nat \<times> nat" where
  "adler32_step x s =
     (let a = (fst s + unat x) mod 65521 in (a, (snd s + a) mod 65521))"

definition adler32 :: "byte list \<Rightarrow> nat" where
  "adler32 bs = (let s = fold adler32_step bs (1, 0) in push_bit 16 (snd s) OR fst s)"

text \<open>
  \<open>bytes.decode("utf8")\<close> in strict mode, giving the code points of the text: shortest
  forms only, no surrogates, nothing above U+10FFFF; anything else raises
  \<open>UnicodeDecodeError\<close>.
\<close>

definition cont :: "byte \<Rightarrow> bool" where
  "cont b \<longleftrightarrow> b AND 0xC0 = 0x80"

definition low6 :: "byte \<Rightarrow> nat" where
  "low6 b = unat (b AND 0x3F)"

fun utf8_decode :: "byte list \<Rightarrow> error + nat list" where
  "utf8_decode [] = Inr []"
| "utf8_decode (b0 # bs) =
     (if b0 < 0x80 then
        bind (utf8_decode bs) (\<lambda>cs. Inr (unat b0 # cs))
      else if 0xC2 \<le> b0 \<and> b0 \<le> 0xDF then
        (case bs of
           b1 # r \<Rightarrow>
             if cont b1
             then bind (utf8_decode r) (\<lambda>cs. Inr ((unat (b0 AND 0x1F) * 64 + low6 b1) # cs))
             else Inl UnicodeDecodeError
         | _ \<Rightarrow> Inl UnicodeDecodeError)
      else if 0xE0 \<le> b0 \<and> b0 \<le> 0xEF then
        (case bs of
           b1 # b2 # r \<Rightarrow>
             if cont b1 \<and> cont b2 \<and> (b0 = 0xE0 \<longrightarrow> 0xA0 \<le> b1) \<and> (b0 = 0xED \<longrightarrow> b1 \<le> 0x9F)
             then bind (utf8_decode r)
                    (\<lambda>cs. Inr ((unat (b0 AND 0x0F) * 4096 + low6 b1 * 64 + low6 b2) # cs))
             else Inl UnicodeDecodeError
         | _ \<Rightarrow> Inl UnicodeDecodeError)
      else if 0xF0 \<le> b0 \<and> b0 \<le> 0xF4 then
        (case bs of
           b1 # b2 # b3 # r \<Rightarrow>
             if cont b1 \<and> cont b2 \<and> cont b3
                \<and> (b0 = 0xF0 \<longrightarrow> 0x90 \<le> b1) \<and> (b0 = 0xF4 \<longrightarrow> b1 \<le> 0x8F)
             then bind (utf8_decode r)
                    (\<lambda>cs. Inr ((unat (b0 AND 0x07) * 262144 + low6 b1 * 4096
                                 + low6 b2 * 64 + low6 b3) # cs))
             else Inl UnicodeDecodeError
         | _ \<Rightarrow> Inl UnicodeDecodeError)
      else Inl UnicodeDecodeError)"

section \<open>Constants and enumerations\<close>

definition MAGIC :: "byte list" where
  "MAGIC = [0x64, 0x65, 0x78, 0x0a]"

definition ENDIAN_CONSTANT :: nat where
  "ENDIAN_CONSTANT = 0x12345678"

definition REVERSE_ENDIAN_CONSTANT :: nat where
  "REVERSE_ENDIAN_CONSTANT = 0x78563412"

definition NO_INDEX :: nat where
  "NO_INDEX = 0xffffffff"

definition HEADER_SIZE :: nat where
  "HEADER_SIZE = 112"

text \<open>
  \<open>AccessFlag(v)\<close>: a flag value is accepted when all its bits are named by the
  enumeration (the union of the members is \<open>0x37fff\<close>: below \<open>0x40000\<close> with bit 15
  clear), and raises \<open>ValueError\<close> otherwise. The accepted value is kept as the number itself.
\<close>

definition AccessFlag :: "nat \<Rightarrow> error + nat" where
  "AccessFlag v =
     (if v < 0x40000 \<and> (v div 0x8000) mod 2 = 0 then Inr v else Inl ValueError)"

datatype TypeCode =
    TYPE_HEADER_ITEM | TYPE_STRING_ID_ITEM | TYPE_TYPE_ID_ITEM | TYPE_PROTO_ID_ITEM
  | TYPE_FIELD_ID_ITEM | TYPE_METHOD_ID_ITEM | TYPE_CLASS_DEF_ITEM | TYPE_CALL_SITE_ID_ITEM
  | TYPE_METHOD_HANDLE_ITEM | TYPE_MAP_LIST | TYPE_TYPE_LIST | TYPE_ANNOTATION_SET_REF_LIST
  | TYPE_ANNOTATION_SET_ITEM | TYPE_CLASS_DATA_ITEM | TYPE_CODE_ITEM | TYPE_STRING_DATA_ITEM
  | TYPE_DEBUG_INFO_ITEM | TYPE_ANNOTATION_ITEM | TYPE_ENCODED_ARRAY_ITEM
  | TYPE_ANNOTATIONS_DIRECTORY_ITEM | TYPE_HIDDENAPI_CLASS_DATA_ITEM

definition TypeCode_of :: "nat \<Rightarrow> error + TypeCode" where
  "TypeCode_of v =
     (if v = 0x0000 then Inr TYPE_HEADER_ITEM
      else if v = 0x0001 then Inr TYPE_STRING_ID_ITEM
      else if v = 0x0002 then Inr TYPE_TYPE_ID_ITEM
      else if v = 0x0003 then Inr TYPE_PROTO_ID_ITEM
      else if v = 0x0004 then Inr TYPE_FIELD_ID_ITEM
      else if v = 0x0005 then Inr TYPE_METHOD_ID_ITEM
      else if v = 0x0006 then Inr TYPE_CLASS_DEF_ITEM
      else if v = 0x0007 then Inr TYPE_CALL_SITE_ID_ITEM
      else if v = 0x0008 then Inr TYPE_METHOD_HANDLE_ITEM
      else if v = 0x1000 then Inr TYPE_MAP_LIST
      else if v = 0x1001 then Inr TYPE_TYPE_LIST
      else if v = 0x1002 then Inr TYPE_ANNOTATION_SET_REF_LIST
      else if v = 0x1003 then Inr TYPE_ANNOTATION_SET_ITEM
      else if v = 0x2000 then Inr TYPE_CLASS_DATA_ITEM
      else if v = 0x2001 then Inr TYPE_CODE_ITEM
      else if v = 0x2002 then Inr TYPE_STRING_DATA_ITEM
      else if v = 0x2003 then Inr TYPE_DEBUG_INFO_ITEM
      else if v = 0x2004 then Inr TYPE_ANNOTATION_ITEM
      else if v = 0x2005 then Inr TYPE_ENCODED_ARRAY_ITEM
      else if v = 0x2006 then Inr TYPE_ANNOTATIONS_DIRECTORY_ITEM
      else if v = 0xF000 then Inr TYPE_HIDDENAPI_CLASS_DATA_ITEM
      else Inl ValueError)"

text \<open>The three names of \<open>Visibility\<close> share the value 0, so the enumeration has one member.\<close>

datatype Visibility = VISIBILITY_BUILD

definition Visibility_of :: "nat \<Rightarrow> error + Visibility" where
  "Visibility_of v = (if v = 0 then Inr VISIBILITY_BUILD else Inl ValueError)"

datatype ValueFormat =
    VALUE_BYTE | VALUE_SHORT | VALUE_CHAR | VALUE_INT | VALUE_LONG | VALUE_FLOAT
  | VALUE_DOUBLE | VALUE_METHOD_TYPE | VALUE_METHOD_HANDLE | VALUE_STRING | VALUE_TYPE
  | VALUE_FIELD | VALUE_METHOD | VALUE_ENUM | VALUE_ARRAY | VALUE_ANNOTATION | VALUE_NULL
  | VALUE_BOOLEAN

definition ValueFormat_of :: "nat \<Rightarrow> error + ValueFormat" where
  "ValueFormat_of v =
     (if v = 0x00 then Inr VALUE_BYTE
      else if v = 0x02 then Inr VALUE_SHORT
      else if v = 0x03 then Inr VALUE_CHAR
      else if v = 0x04 then Inr VALUE_INT
      else if v = 0x06 then Inr VALUE_LONG
      else if v = 0x10 then Inr VALUE_FLOAT
      else if v = 0x11 then Inr VALUE_DOUBLE
      else if v = 0x15 then Inr VALUE_METHOD_TYPE
      else if v = 0x16 then Inr VALUE_METHOD_HANDLE
      else if v = 0x17 then Inr VALUE_STRING
      else if v = 0x18 then Inr VALUE_TYPE
      else if v = 0x19 then Inr VALUE_FIELD
      else if v = 0x1a then Inr VALUE_METHOD
      else if v = 0x1b then Inr VALUE_ENUM
      else if v = 0x1c then Inr VALUE_ARRAY
      else if v = 0x1d then Inr VALUE_ANNOTATION
      else if v = 0x1e then Inr VALUE_NULL
      else if v = 0x1f then Inr VALUE_BOOLEAN
      else Inl ValueError)"

section \<open>Header\<close>

text \<open>
  The slots of \<open>HeaderItem\<close> that \<open>__init__\<close> assigns (the slot \<open>header_size\<close> is
  declared but never assigned). \<open>version\<close> is the decoded text as code points.
\<close>

record HeaderItem =
  version :: "nat list"
  checksum :: nat
  signature :: "byte list"
  file_size :: nat
  endianness :: string
  link_size :: nat
  link_off :: nat
  map_off :: nat
  string_ids_size :: nat
  string_ids_off :: nat
  type_ids_size :: nat
  type_ids_off :: nat
  proto_ids_size :: nat
  proto_ids_off :: nat
  field_ids_size :: nat
  field_ids_off :: nat
  method_ids_size :: nat
  method_ids_off :: nat
  class_defs_size :: nat
  class_defs_off :: nat
  data_size :: nat
  data_off :: nat

text \<open>The branch on the endianness tag.\<close>

definition endian_of_tag :: "nat \<Rightarrow> error + string" where
  "endian_of_tag endian_tag =
     (if endian_tag = ENDIAN_CONSTANT then Inr ''big''
      else if endian_tag = REVERSE_ENDIAN_CONSTANT then Inr ''little''
      else Inl BadDexFileError)"

text \<open>
  \<open>HeaderItem.__init__\<close>. \<open>hashlib.sha1\<close> is not part of the repository; the
  constructor takes the digest function as its first argument.
\<close>

definition HeaderItem_init :: "(byte list \<Rightarrow> byte list) \<Rightarrow> byte list \<Rightarrow> error + HeaderItem" where
  "HeaderItem_init sha1 data =
     (if py_slice data 0 4 \<noteq> MAGIC then Inl BadDexFileError
      else bind (utf8_decode (py_slice data 4 7)) (\<lambda>ver.
        bind (getitem data 7) (\<lambda>b7.
          if b7 \<noteq> 0x00 then Inl BadDexFileError
          else if adler32 (drop 12 data) \<noteq> from_bytes (py_slice data 8 12) then Inl BadDexFileError
          else if sha1 (drop 32 data) \<noteq> py_slice data 12 32 then Inl BadDexFileError
          else if length data \<noteq> from_bytes (py_slice data 32 36) then Inl BadDexFileError
          else if from_bytes (py_slice data 36 40) \<noteq> HEADER_SIZE then Inl BadDexFileError
          else bind (endian_of_tag (from_bytes (py_slice data 40 44))) (\<lambda>en.
            Inr \<lparr>version = ver,
                 checksum = adler32 (drop 12 data),
                 signature = sha1 (drop 32 data),
                 file_size = length data,
                 endianness = en,
                 link_size = from_bytes (py_slice data 44 48),
                 link_off = from_bytes (py_slice data 48 52),
                 map_off = from_bytes (py_slice data 52 56),
                 string_ids_size = from_bytes (py_slice data 56 60),
                 string_ids_off = from_bytes (py_slice data 60 64),
                 type_ids_size = from_bytes (py_slice data 64 68),
                 type_ids_off = from_bytes (py_slice data 68 72),
                 proto_ids_size = from_bytes (py_slice data 72 76),
                 proto_ids_off = from_bytes (py_slice data 76 80),
                 field_ids_size = from_bytes (py_slice data 80 84),
                 field_ids_off = from_bytes (py_slice data 84 88),
                 method_ids_size = from_bytes (py_slice data 88 92),
                 method_ids_off = from_bytes (py_slice data 92 96),
                 class_defs_size = from_bytes (py_slice data 96 100),
                 class_defs_off = from_bytes (py_slice data 100 104),
                 data_size = from_bytes (py_slice data 104 108),
                 data_off = from_bytes (py_slice data 108 112)\<rparr>))))"


section \<open>Map list\<close>

record MapItem =
  mi_type :: TypeCode
  mi_unused :: nat
  mi_size :: nat
  mi_offset :: nat

definition MapItem_init :: "byte list \<Rightarrow> error + MapItem" where
  "MapItem_init data =
     bind (TypeCode_of (from_bytes (py_slice data 0 2))) (\<lambda>t.
       Inr \<lparr>mi_type = t,
            mi_unused = from_bytes (py_slice data 2 4),
            mi_size = from_bytes (py_slice data 4 8),
            mi_offset = from_bytes (py_slice data 8 12)\<rparr>)"

record MapList =
  ml_size :: nat
  ml_list :: "MapItem list"

definition MapList_init :: "byte list \<Rightarrow> error + MapList" where
  "MapList_init data =
     (let size = from_bytes (py_slice data 0 4)
      in bind (comprehend (\<lambda>off. MapItem_init (py_slice data off (off + 12)))
                 (range3 4 (4 + size * 12) 12))
           (\<lambda>items. Inr \<lparr>ml_size = size, ml_list = items\<rparr>))"

section \<open>Strings, types, prototypes, fields, methods\<close>

record StringDataItem =
  utf16size :: nat
  sd_data :: "nat list"

definition StringDataItem_init :: "byte list \<Rightarrow> error + StringDataItem" where
  "StringDataItem_init data =
     (let size = from_bytes (py_slice data 0 1)
      in bind (utf8_decode (py_slice data 1 (1 + size)))
           (\<lambda>text. Inr \<lparr>utf16size = size, sd_data = text\<rparr>))"

record StringIdItem =
  string_data_off :: nat

definition StringIdItem_init :: "byte list \<Rightarrow> StringIdItem" where
  "StringIdItem_init data = \<lparr>string_data_off = from_bytes data\<rparr>"

definition get_string_data_item :: "StringIdItem \<Rightarrow> byte list \<Rightarrow> error + StringDataItem" where
  "get_string_data_item s data = StringDataItem_init (drop (string_data_off s) data)"

record TypeIdItem =
  descriptor_idx :: nat

definition TypeIdItem_init :: "byte list \<Rightarrow> TypeIdItem" where
  "TypeIdItem_init data = \<lparr>descriptor_idx = from_bytes data\<rparr>"

definition get_string_id_item :: "TypeIdItem \<Rightarrow> StringIdItem list \<Rightarrow> error + StringIdItem" where
  "get_string_id_item t string_ids = getitem string_ids (descriptor_idx t)"

record TypeItem =
  ti_type_idx :: nat

definition TypeItem_init :: "byte list \<Rightarrow> TypeItem" where
  "TypeItem_init data = \<lparr>ti_type_idx = from_bytes data\<rparr>"

definition TypeItem_get_type_type_id_item :: "TypeItem \<Rightarrow> TypeIdItem list \<Rightarrow> error + TypeIdItem" where
  "TypeItem_get_type_type_id_item t type_ids = getitem type_ids (ti_type_idx t)"

record TypeList =
  tl_size :: nat
  tl_list :: "TypeItem list"

definition TypeList_init :: "byte list \<Rightarrow> TypeList" where
  "TypeList_init data =
     (let size = from_bytes (py_slice data 0 4)
      in \<lparr>tl_size = size,
          tl_list = map (\<lambda>off. TypeItem_init (py_slice data off (off + 2)))
                      (range3 4 (4 + size * 2) 2)\<rparr>)"

record ProtoIdItem =
  shorty_idx :: nat
  return_type_idx :: nat
  parameters_off :: nat

definition ProtoIdItem_init :: "byte list \<Rightarrow> ProtoIdItem" where
  "ProtoIdItem_init data =
     \<lparr>shorty_idx = from_bytes (py_slice data 0 4),
      return_type_idx = from_bytes (py_slice data 4 8),
      parameters_off = from_bytes (py_slice data 8 12)\<rparr>"

definition get_shorty_string_id_item :: "ProtoIdItem \<Rightarrow> StringIdItem list \<Rightarrow> error + StringIdItem" where
  "get_shorty_string_id_item p string_ids = getitem string_ids (shorty_idx p)"

definition get_return_type_type_id_item :: "ProtoIdItem \<Rightarrow> TypeIdItem list \<Rightarrow> error + TypeIdItem" where
  "get_return_type_type_id_item p type_ids = getitem type_ids (return_type_idx p)"

definition get_parameters :: "ProtoIdItem \<Rightarrow> byte list \<Rightarrow> TypeList" where
  "get_parameters p data =
     (if parameters_off p = 0x00 then TypeList_init (replicate 4 0)
      else TypeList_init (drop (parameters_off p) data))"

record FieldIdItem =
  fi_class_idx :: nat
  fi_type_idx :: nat
  fi_name_idx :: nat

definition FieldIdItem_init :: "byte list \<Rightarrow> FieldIdItem" where
  "FieldIdItem_init data =
     \<lparr>fi_class_idx = from_bytes (py_slice data 0 2),
      fi_type_idx = from_bytes (py_slice data 2 4),
      fi_name_idx = from_bytes (py_slice data 4 8)\<rparr>"

definition FieldIdItem_get_class_type_id_item :: "FieldIdItem \<Rightarrow> TypeIdItem list \<Rightarrow> error + TypeIdItem" where
  "FieldIdItem_get_class_type_id_item f type_ids = getitem type_ids (fi_class_idx f)"

definition FieldIdItem_get_type_type_id_item :: "FieldIdItem \<Rightarrow> TypeIdItem list \<Rightarrow> error + TypeIdItem" where
  "FieldIdItem_get_type_type_id_item f type_ids = getitem type_ids (fi_type_idx f)"

definition FieldIdItem_get_name_string_id_item :: "FieldIdItem \<Rightarrow> StringIdItem list \<Rightarrow> error + StringIdItem" where
  "FieldIdItem_get_name_string_id_item f string_ids = getitem string_ids (fi_name_idx f)"

record MethodIdItem =
  me_class_idx :: nat
  me_proto_idx :: nat
  me_name_idx :: nat

definition MethodIdItem_init :: "byte list \<Rightarrow> MethodIdItem" where
  "MethodIdItem_init data =
     \<lparr>me_class_idx = from_bytes (py_slice data 0 2),
      me_proto_idx = from_bytes (py_slice data 2 4),
      me_name_idx = from_bytes (py_slice data 4 8)\<rparr>"

definition MethodIdItem_get_class_type_id_item :: "MethodIdItem \<Rightarrow> TypeIdItem list \<Rightarrow> error + TypeIdItem" where
  "MethodIdItem_get_class_type_id_item m type_ids = getitem type_ids (me_class_idx m)"

definition MethodIdItem_get_proto_proto_id_item :: "MethodIdItem \<Rightarrow> ProtoIdItem list \<Rightarrow> error + ProtoIdItem" where
  "MethodIdItem_get_proto_proto_id_item m proto_ids = getitem proto_ids (me_proto_idx m)"

definition MethodIdItem_get_name_string_id_item :: "MethodIdItem \<Rightarrow> StringIdItem list \<Rightarrow> error + StringIdItem" where
  "MethodIdItem_get_name_string_id_item m string_ids = getitem string_ids (me_name_idx m)"

section \<open>Encoded values and annotations\<close>

text \<open>
  \<open>EncodedValue\<close>: the slot \<open>value\<close> is assigned only in the \<open>VALUE_BYTE\<close> branch;
  \<open>None\<close> is the unassigned slot. In \<open>data[0] & 0xe0 >> 5\<close> the shift binds tighter than
  the conjunction.
\<close>

record EncodedValue =
  value_arg :: nat
  value_type :: ValueFormat
  ev_value :: "int option"

definition EncodedValue_init :: "byte list \<Rightarrow> error + EncodedValue" where
  "EncodedValue_init data =
     bind (getitem data 0) (\<lambda>b0.
       bind (ValueFormat_of (unat (b0 AND 0x1f))) (\<lambda>vt.
         let arg = unat (b0 AND drop_bit 5 0xe0)
         in if vt = VALUE_BYTE then
              (if arg \<noteq> 0 then Inl BadDexFileError
               else Inr \<lparr>value_arg = arg, value_type = vt,
                         ev_value = Some (from_bytes_signed (py_slice data 1 2))\<rparr>)
            else Inr \<lparr>value_arg = arg, value_type = vt, ev_value = None\<rparr>))"

text \<open>\<open>Uleb128\<close> defines no method \<open>get_bytes\<close>: the attribute lookup raises.\<close>

definition Uleb128_get_bytes :: "Uleb128 \<Rightarrow> error + byte list" where
  "Uleb128_get_bytes u = Inl AttributeError"

record AnnotationElement =
  ae_name_idx :: Uleb128
  ae_value :: EncodedValue

definition AnnotationElement_init :: "byte list \<Rightarrow> error + AnnotationElement" where
  "AnnotationElement_init data =
     bind (Uleb128_init data) (\<lambda>name_idx.
       bind (Uleb128_get_bytes name_idx) (\<lambda>bs.
         bind (EncodedValue_init (drop (length bs) data)) (\<lambda>v.
           Inr \<lparr>ae_name_idx = name_idx, ae_value = v\<rparr>)))"

record EncodedAnnotation =
  ea_type_idx :: Uleb128
  ea_size :: Uleb128
  ea_elements :: "AnnotationElement list"

text \<open>
  \<open>EncodedAnnotation.__init__\<close>. After the two varints, \<open>range(self.size)\<close> is applied to
  a \<open>Uleb128\<close> object, which is not an integer: \<open>TypeError\<close>.
\<close>

definition EncodedAnnotation_init :: "byte list \<Rightarrow> error + EncodedAnnotation" where
  "EncodedAnnotation_init data =
     bind (Uleb128_init data) (\<lambda>type_idx.
       bind (Uleb128_get_bytes type_idx) (\<lambda>bs.
         bind (Uleb128_init (drop (length bs) data)) (\<lambda>size.
           bind (Uleb128_get_bytes size) (\<lambda>bs'. Inl TypeError))))"

record AnnotationItem =
  visibility :: Visibility
  annotation :: EncodedAnnotation

definition AnnotationItem_init :: "byte list \<Rightarrow> error + AnnotationItem" where
  "AnnotationItem_init data =
     bind (Visibility_of (from_bytes (py_slice data 0 1))) (\<lambda>vis.
       bind (EncodedAnnotation_init (drop 1 data)) (\<lambda>a.
         Inr \<lparr>visibility = vis, annotation = a\<rparr>))"

text \<open>
  \<open>AnnotationOffItem\<close> declares the slot \<open>annotation_off\<close> and assigns
  \<open>self.annotations_off\<close>: with \<open>__slots__\<close> the assignment raises \<open>AttributeError\<close>.
\<close>

record AnnotationOffItem =
  annotation_off :: nat

definition AnnotationOffItem_init :: "byte list \<Rightarrow> error + AnnotationOffItem" where
  "AnnotationOffItem_init data =
     (let v = from_bytes (py_slice data 0 4) in Inl AttributeError)"

record AnnotationSetItem =
  as_size :: nat
  as_entries :: "AnnotationOffItem list"

definition AnnotationSetItem_init :: "byte list \<Rightarrow> error + AnnotationSetItem" where
  "AnnotationSetItem_init data =
     (let size = from_bytes (py_slice data 0 4)
      in bind (comprehend (\<lambda>off. AnnotationOffItem_init (py_slice data off (off + 4)))
                 (range3 4 (4 + size * 4) 4))
           (\<lambda>entries. Inr \<lparr>as_size = size, as_entries = entries\<rparr>))"

record FieldAnnotation =
  fa_field_idx :: nat
  fa_annotations_off :: nat

definition FieldAnnotation_init :: "byte list \<Rightarrow> FieldAnnotation" where
  "FieldAnnotation_init data =
     \<lparr>fa_field_idx = from_bytes (py_slice data 0 4),
      fa_annotations_off = from_bytes (py_slice data 4 8)\<rparr>"

definition FieldAnnotation_get_field :: "FieldAnnotation \<Rightarrow> FieldIdItem list \<Rightarrow> error + FieldIdItem" where
  "FieldAnnotation_get_field a field_ids = getitem field_ids (fa_field_idx a)"

definition FieldAnnotation_get_annotations :: "FieldAnnotation \<Rightarrow> byte list \<Rightarrow> error + AnnotationSetItem" where
  "FieldAnnotation_get_annotations a data =
     AnnotationSetItem_init (drop (fa_annotations_off a) data)"

text \<open>
  \<open>AnnotationDirectoryItem.__init__\<close>. The classes \<open>MethodAnnotation\<close> and
  \<open>ParameterAnnotation\<close> do not exist: the name is looked up when an element of the
  comprehension is built, and raises \<open>NameError\<close> then.
\<close>

record AnnotationDirectoryItem =
  class_annotations_off :: nat
  fields_size :: nat
  annoted_methods_size :: nat
  annoted_parameters_size :: nat
  field_annotations :: "FieldAnnotation list"
  method_annotations :: "unit list"
  parameter_annotations :: "unit list"

definition AnnotationDirectoryItem_init :: "byte list \<Rightarrow> error + AnnotationDirectoryItem" where
  "AnnotationDirectoryItem_init data =
     (let ca = from_bytes (py_slice data 0 4);
          fs = from_bytes (py_slice data 4 8);
          ms = from_bytes (py_slice data 8 12);
          ps = from_bytes (py_slice data 12 16);
          end1 = 16 + fs * 8;
          fas = map (\<lambda>off. FieldAnnotation_init (py_slice data off (off + 8))) (range3 16 end1 8);
          end2 = end1 + ms * 8
      in bind (comprehend (\<lambda>off. Inl NameError) (range3 end1 end2 8)) (\<lambda>mas.
           bind (comprehend (\<lambda>off. Inl NameError) (range3 end2 (end2 + ps * 8) 8)) (\<lambda>pas.
             Inr \<lparr>class_annotations_off = ca, fields_size = fs,
                  annoted_methods_size = ms, annoted_parameters_size = ps,
                  field_annotations = fas, method_annotations = mas,
                  parameter_annotations = pas\<rparr>)))"


section \<open>Class data\<close>

record EncodedField =
  field_idx_diff :: Uleb128
  ef_access_flags :: Uleb128
  ef_size :: nat

definition EncodedField_init :: "byte list \<Rightarrow> error + EncodedField" where
  "EncodedField_init data =
     bind (Uleb128_init data) (\<lambda>d.
       let off = uleb_size d
       in bind (Uleb128_init (drop off data)) (\<lambda>af.
            Inr \<lparr>field_idx_diff = d, ef_access_flags = af, ef_size = off + uleb_size af\<rparr>))"


record EncodedMethod =
  method_idx_diff :: Uleb128
  em_access_flags :: Uleb128
  code_off :: Uleb128
  em_size :: nat

definition EncodedMethod_init :: "byte list \<Rightarrow> error + EncodedMethod" where
  "EncodedMethod_init data =
     bind (Uleb128_init data) (\<lambda>d.
       let off = uleb_size d
       in bind (Uleb128_init (drop off data)) (\<lambda>af.
            let off' = off + uleb_size af
            in bind (Uleb128_init (drop off' data)) (\<lambda>co.
                 Inr \<lparr>method_idx_diff = d, em_access_flags = af, code_off = co,
                      em_size = off' + uleb_size co\<rparr>)))"


text \<open>
  The loops of \<open>ClassDataItem.__init__\<close>: \<open>n\<close> records are read one after the other
  from the running offset; the result is the list and the offset after it.
\<close>

fun read_fields :: "nat \<Rightarrow> byte list \<Rightarrow> nat \<Rightarrow> error + (EncodedField list \<times> nat)" where
  "read_fields 0 data off = Inr ([], off)"
| "read_fields (Suc n) data off =
     bind (EncodedField_init (drop off data)) (\<lambda>f.
       bind (read_fields n data (off + ef_size f)) (\<lambda>r. Inr (f # fst r, snd r)))"

fun read_methods :: "nat \<Rightarrow> byte list \<Rightarrow> nat \<Rightarrow> error + (EncodedMethod list \<times> nat)" where
  "read_methods 0 data off = Inr ([], off)"
| "read_methods (Suc n) data off =
     bind (EncodedMethod_init (drop off data)) (\<lambda>m.
       bind (read_methods n data (off + em_size m)) (\<lambda>r. Inr (m # fst r, snd r)))"

record ClassDataItem =
  static_fields_size :: Uleb128
  instance_fields_size :: Uleb128
  direct_mehtods_size :: Uleb128
  virtual_methods_size :: Uleb128
  static_fields :: "EncodedField list"
  instance_fields :: "EncodedField list"
  direct_mehtods :: "EncodedMethod list"
  virtual_methods :: "EncodedMethod list"

definition ClassDataItem_init :: "byte list \<Rightarrow> error + ClassDataItem" where
  "ClassDataItem_init data =
     bind (Uleb128_init data) (\<lambda>sfs.
     bind (Uleb128_init (drop (uleb_size sfs) data)) (\<lambda>ifs.
     bind (Uleb128_init (drop (uleb_size sfs + uleb_size ifs) data)) (\<lambda>dms.
     bind (Uleb128_init (drop (uleb_size sfs + uleb_size ifs + uleb_size dms) data)) (\<lambda>vms.
     bind (read_fields (Uleb128_int sfs) data
             (uleb_size sfs + uleb_size ifs + uleb_size dms + uleb_size vms)) (\<lambda>sf.
     bind (read_fields (Uleb128_int ifs) data (snd sf)) (\<lambda>inf.
     bind (read_methods (Uleb128_int dms) data (snd inf)) (\<lambda>dm.
     bind (read_methods (Uleb128_int vms) data (snd dm)) (\<lambda>vm.
       Inr \<lparr>static_fields_size = sfs, instance_fields_size = ifs,
            direct_mehtods_size = dms, virtual_methods_size = vms,
            static_fields = fst sf, instance_fields = fst inf,
            direct_mehtods = fst dm, virtual_methods = fst vm\<rparr>))))))))"




section \<open>Class definitions\<close>

text \<open>\<open>EncodedArrayItem.__init__\<close> is \<open>pass\<close>: an object with no slot assigned.\<close>

datatype EncodedArrayItem = EncodedArrayItem

definition EncodedArrayItem_init :: "byte list \<Rightarrow> EncodedArrayItem" where
  "EncodedArrayItem_init data = EncodedArrayItem"

record ClassDefItem =
  class_idx :: nat
  access_flags :: nat
  superclass_idx :: nat
  interfaces_off :: nat
  source_file_idx :: nat
  annotations_off :: nat
  class_data_off :: nat
  static_values_off :: nat

definition ClassDefItem_init :: "byte list \<Rightarrow> error + ClassDefItem" where
  "ClassDefItem_init data =
     bind (AccessFlag (from_bytes (py_slice data 4 8))) (\<lambda>flags.
       Inr \<lparr>class_idx = from_bytes (py_slice data 0 4),
            access_flags = flags,
            superclass_idx = from_bytes (py_slice data 8 12),
            interfaces_off = from_bytes (py_slice data 12 16),
            source_file_idx = from_bytes (py_slice data 16 20),
            annotations_off = from_bytes (py_slice data 20 24),
            class_data_off = from_bytes (py_slice data 24 28),
            static_values_off = from_bytes (py_slice data 28 32)\<rparr>)"

definition get_class_type_id_item :: "ClassDefItem \<Rightarrow> TypeIdItem list \<Rightarrow> error + TypeIdItem" where
  "get_class_type_id_item c type_ids = getitem type_ids (class_idx c)"

definition get_superclass_type_id_item :: "ClassDefItem \<Rightarrow> TypeIdItem list \<Rightarrow> error + TypeIdItem option" where
  "get_superclass_type_id_item c type_ids =
     (if superclass_idx c = NO_INDEX then Inr None
      else bind (getitem type_ids (superclass_idx c)) (\<lambda>t. Inr (Some t)))"

definition get_interfaces_type_list :: "ClassDefItem \<Rightarrow> byte list \<Rightarrow> error + TypeList option" where
  "get_interfaces_type_list c data =
     (if interfaces_off c = 0x00 then Inr None
      else Inr (Some (TypeList_init (drop (interfaces_off c) data))))"

definition get_source_file_string_id_item :: "ClassDefItem \<Rightarrow> StringIdItem list \<Rightarrow> error + StringIdItem option" where
  "get_source_file_string_id_item c string_ids =
     (if source_file_idx c = NO_INDEX then Inr None
      else bind (getitem string_ids (source_file_idx c)) (\<lambda>s. Inr (Some s)))"

definition get_annotations_annotation_directory_item ::
  "ClassDefItem \<Rightarrow> byte list \<Rightarrow> error + AnnotationDirectoryItem option" where
  "get_annotations_annotation_directory_item c data =
     (if annotations_off c = 0x00 then Inr None
      else bind (AnnotationDirectoryItem_init (drop (annotations_off c) data))
             (\<lambda>a. Inr (Some a)))"

definition get_class_data_class_data_item :: "ClassDefItem \<Rightarrow> byte list \<Rightarrow> error + ClassDataItem option" where
  "get_class_data_class_data_item c data =
     (if class_data_off c = 0x00 then Inr None
      else bind (ClassDataItem_init (drop (class_data_off c) data)) (\<lambda>d. Inr (Some d)))"

definition get_static_values_encoded_array_item ::
  "ClassDefItem \<Rightarrow> byte list \<Rightarrow> error + EncodedArrayItem option" where
  "get_static_values_encoded_array_item c data =
     (if static_values_off c = 0x00 then Inr None
      else Inr (Some (EncodedArrayItem_init (drop (static_values_off c) data))))"

section \<open>The parser\<close>

text \<open>
  The comprehension that builds a table of fixed-size records:
  \<open>[Item(data[off : off + stride]) for off in range(start, start + (size * stride), stride)]\<close>.
\<close>

definition table :: "(byte list \<Rightarrow> 'a) \<Rightarrow> nat \<Rightarrow> byte list \<Rightarrow> nat \<Rightarrow> nat \<Rightarrow> 'a list" where
  "table item stride data start count =
     map (\<lambda>off. item (py_slice data off (off + stride)))
       (range3 start (start + (count * stride)) stride)"

record DexParser =
  full_data :: "byte list"
  header :: HeaderItem
  map_list :: MapList
  string_ids :: "StringIdItem list"
  type_ids :: "TypeIdItem list"
  proto_ids :: "ProtoIdItem list"
  field_ids :: "FieldIdItem list"
  method_ids :: "MethodIdItem list"
  class_defs :: "ClassDefItem list"

definition DexParser_init :: "(byte list \<Rightarrow> byte list) \<Rightarrow> byte list \<Rightarrow> error + DexParser" where
  "DexParser_init sha1 data =
     bind (HeaderItem_init sha1 data) (\<lambda>h.
     bind (MapList_init (drop (map_off h) data)) (\<lambda>ml.
       let sids = table StringIdItem_init 4 data (string_ids_off h) (string_ids_size h);
           tids = table TypeIdItem_init 4 data (type_ids_off h) (type_ids_size h);
           pids = table ProtoIdItem_init 12 data (proto_ids_off h) (proto_ids_size h);
           fids = table FieldIdItem_init 8 data (field_ids_off h) (field_ids_size h);
           mids = table MethodIdItem_init 8 data (method_ids_off h) (method_ids_size h)
       in bind (comprehend (\<lambda>off. ClassDefItem_init (py_slice data off (off + 32)))
                  (range3 (class_defs_off h) (class_defs_off h + (class_defs_size h * 32)) 32))
            (\<lambda>cds.
              Inr \<lparr>full_data = data, header = h, map_list = ml, string_ids = sids,
                   type_ids = tids, proto_ids = pids, field_ids = fids, method_ids = mids,
                   class_defs = cds\<rparr>)))"


section \<open>A small container\<close>

text \<open>
  A container of 116 bytes: the 112-byte header and four data bytes \<open>01 02 03 04\<close>. The
  header declares three string ids at offset 112, one type id at offset 114, one prototype
  id at offset 200, one field id at offset 115 and one method id at offset 116, so most of
  these records lie partly or wholly past the end of the buffer; the map list is at
  offset 116, the end of the buffer. The checksum field holds the Adler-32 value of bytes
  12 onwards. The signature field is all zero, the digest of the stand-in
  \<open>zero_digest\<close>, which takes the place of SHA-1 where a concrete buffer has to pass
  the signature check.
\<close>

definition zero_digest :: "byte list \<Rightarrow> byte list" where
  "zero_digest msg = [0, 0, 0, 0, 0, 0, 0, 0, 0, 0, 0, 0, 0, 0, 0, 0, 0, 0, 0, 0]"

definition sample_dex :: "byte list" where
  "sample_dex =
     [
      0x64, 0x65, 0x78, 0x0a, 0x30, 0x33, 0x35, 0x00, 0x83, 0x05, 0xfb, 0x22, 0x00, 0x00, 0x00, 0x00,
      0x00, 0x00, 0x00, 0x00, 0x00, 0x00, 0x00, 0x00, 0x00, 0x00, 0x00, 0x00, 0x00, 0x00, 0x00, 0x00,
      0x74, 0x00, 0x00, 0x00, 0x70, 0x00, 0x00, 0x00, 0x78, 0x56, 0x34, 0x12, 0x00, 0x00, 0x00, 0x00,
      0x00, 0x00, 0x00, 0x00, 0x74, 0x00, 0x00, 0x00, 0x03, 0x00, 0x00, 0x00, 0x70, 0x00, 0x00, 0x00,
      0x01, 0x00, 0x00, 0x00, 0x72, 0x00, 0x00, 0x00, 0x01, 0x00, 0x00, 0x00, 0xc8, 0x00, 0x00, 0x00,
      0x01, 0x00, 0x00, 0x00, 0x73, 0x00, 0x00, 0x00, 0x01, 0x00, 0x00, 0x00, 0x74, 0x00, 0x00, 0x00,
      0x00, 0x00, 0x00, 0x00, 0x00, 0x00, 0x00, 0x00, 0x04, 0x00, 0x00, 0x00, 0x70, 0x00, 0x00, 0x00,
      0x01, 0x02, 0x03, 0x04]"

definition sample_header :: HeaderItem where
  "sample_header =
     \<lparr>version = [0x30, 0x33, 0x35], checksum = 586876291, signature = zero_digest [],
      file_size = 116, endianness = ''big'', link_size = 0, link_off = 0, map_off = 116,
      string_ids_size = 3, string_ids_off = 112, type_ids_size = 1, type_ids_off = 114,
      proto_ids_size = 1, proto_ids_off = 200, field_ids_size = 1, field_ids_off = 115,
      method_ids_size = 1, method_ids_off = 116, class_defs_size = 0, class_defs_off = 0,
      data_size = 4, data_off = 112\<rparr>"

section \<open>Properties of the varint decoder\<close>

lemma or_low7: "x < 128 \<Longrightarrow> push_bit 7 (v::nat) OR x = v * 128 + x"
proof -
  assume x: "x < 128"
  then have tx: "take_bit 7 x = x" by (simp add: take_bit_nat_eq_self)
  have "push_bit 7 v AND take_bit 7 x = 0"
    by (rule bit_eqI) (auto simp: bit_simps)
  then have "push_bit 7 v AND x = 0" using tx by simp
  then have "push_bit 7 v + x = push_bit 7 v OR x" by (rule disjunctive_add_eq_or)
  then show ?thesis by (simp add: push_bit_eq_mult)
qed

lemma low7_bound: "unat ((b::byte) AND 0x7f) < 128"
proof -
  have "unat (b AND 0x7f) \<le> unat (0x7f :: byte)"
    by (rule word_and_le1 [THEN word_le_nat_alt [THEN iffD1]])
  then show ?thesis by simp
qed

lemma uleb_fold_value:
  "fold (\<lambda>b v. push_bit 7 v OR unat (b AND 0x7f)) (rev (bs :: byte list)) (0::nat)
     = (\<Sum>i<length bs. unat (bs ! i AND 0x7f) * 2 ^ (7 * i))"
proof (induction bs)
  case Nil
  show ?case by simp
next
  case (Cons b bs)
  have "(\<Sum>i<Suc (length bs). unat ((b # bs) ! i AND 0x7f) * 2 ^ (7 * i))
          = unat ((b # bs) ! 0 AND 0x7f) * 2 ^ (7 * 0)
            + (\<Sum>i<length bs. unat ((b # bs) ! Suc i AND 0x7f) * 2 ^ (7 * Suc i))"
    by (rule sum.lessThan_Suc_shift)
  also have "\<dots> = unat (b AND 0x7f)
                    + (\<Sum>i<length bs. unat (bs ! i AND 0x7f) * 2 ^ (7 * i)) * 128"
    by (simp add: sum_distrib_left power_add mult_ac)
  finally have rhs: "(\<Sum>i<length (b # bs). unat ((b # bs) ! i AND 0x7f) * 2 ^ (7 * i))
          = unat (b AND 0x7f) + (\<Sum>i<length bs. unat (bs ! i AND 0x7f) * 2 ^ (7 * i)) * 128"
    by simp
  have "fold (\<lambda>b v. push_bit 7 v OR unat (b AND 0x7f)) (rev (b # bs)) (0::nat)
          = push_bit 7 (fold (\<lambda>b v. push_bit 7 v OR unat (b AND 0x7f)) (rev bs) 0)
              OR unat (b AND 0x7f)"
    by simp
  also have "\<dots> = (\<Sum>i<length bs. unat (bs ! i AND 0x7f) * 2 ^ (7 * i)) * 128
                    + unat (b AND 0x7f)"
    unfolding Cons.IH by (rule or_low7 [OF low7_bound])
  finally show ?case unfolding rhs by simp
qed

lemma uleb_scan_found:
  "k < length data \<Longrightarrow> \<forall>i<k. data ! i AND 0x80 \<noteq> 0 \<Longrightarrow> data ! k AND 0x80 = 0
     \<Longrightarrow> idx + k < 5 \<Longrightarrow> uleb_scan idx data = Inr (idx + k + 1)"
proof (induction data arbitrary: idx k)
  case Nil
  then show ?case by simp
next
  case (Cons b bs)
  show ?case
  proof (cases k)
    case 0
    with Cons.prems show ?thesis by simp
  next
    case (Suc k')
    have hi: "b AND 0x80 \<noteq> 0" using Cons.prems(2) Suc by auto
    have rest: "\<forall>i<k'. bs ! i AND 0x80 \<noteq> 0" using Cons.prems(2) Suc by auto
    have "uleb_scan (idx + 1) bs = Inr (idx + 1 + k' + 1)"
      using Cons.prems Suc rest by (intro Cons.IH) auto
    then show ?thesis using hi Cons.prems(4) Suc by simp
  qed
qed

lemma uleb_scan_overlong:
  "5 \<le> idx + length data \<Longrightarrow> idx < 5 \<Longrightarrow> \<forall>i<5 - idx. data ! i AND 0x80 \<noteq> 0
     \<Longrightarrow> uleb_scan idx data = Inl BadDexFileError"
proof (induction data arbitrary: idx)
  case Nil
  then show ?case by simp
next
  case (Cons b bs)
  have "0 < 5 - idx" using Cons.prems(2) by simp
  then have "(b # bs) ! 0 AND 0x80 \<noteq> 0" using Cons.prems(3) by blast
  then have hi: "b AND 0x80 \<noteq> 0" by simp
  show ?case
  proof (cases "idx = 4")
    case True
    then show ?thesis using hi by simp
  next
    case False
    have rest: "\<forall>i<5 - (idx + 1). bs ! i AND 0x80 \<noteq> 0"
    proof (intro allI impI)
      fix i assume "i < 5 - (idx + 1)"
      then have "Suc i < 5 - idx" by simp
      then have "(b # bs) ! Suc i AND 0x80 \<noteq> 0" using Cons.prems(3) by blast
      then show "bs ! i AND 0x80 \<noteq> 0" by simp
    qed
    have "uleb_scan (idx + 1) bs = Inl BadDexFileError"
      using Cons.prems False rest by (intro Cons.IH) auto
    then show ?thesis using hi False by simp
  qed
qed

lemma uleb_scan_truncated:
  "idx + length data < 5 \<Longrightarrow> \<forall>i<length data. data ! i AND 0x80 \<noteq> 0
     \<Longrightarrow> uleb_scan idx data = Inr 0"
proof (induction data arbitrary: idx)
  case Nil
  then show ?case by simp
next
  case (Cons b bs)
  have hi: "b AND 0x80 \<noteq> 0" using Cons.prems(2) by auto
  have rest: "\<forall>i<length bs. bs ! i AND 0x80 \<noteq> 0" using Cons.prems(2) by auto
  have "uleb_scan (idx + 1) bs = Inr 0" using Cons.prems rest by (intro Cons.IH) auto
  then show ?case using hi Cons.prems(1) by simp
qed

lemma uleb_scan_error: "uleb_scan idx data = Inl e \<Longrightarrow> e = BadDexFileError"
  by (induction idx data rule: uleb_scan.induct) (auto split: if_splits)

lemma Uleb128_init_error: "Uleb128_init data = Inl e \<Longrightarrow> e = BadDexFileError"
  by (auto simp: Uleb128_init_def bind_def split: sum.splits dest: uleb_scan_error)


text \<open>
  C4 (as amended). The decoder has three outcomes. If a byte with the high bit clear
  stands at position \<open>k\<close> among the first five bytes and all bytes before it have the
  high bit set, it returns \<open>k + 1\<close> bytes consumed and the value
  \<open>\<Sum> (byte_i & 0x7f) << (7 * i)\<close> over positions \<open>0..k\<close>. If the first five bytes all
  have the high bit set, it raises \<open>BadDexFileError\<close>. If the data ends before a
  terminating byte and holds fewer than five bytes, it does not raise: it reports 0 bytes
  consumed and the value 0.
\<close>

theorem Uleb128_decode:
  "(k < length data \<and> k < 5 \<and> (\<forall>i<k. data ! i AND 0x80 \<noteq> 0) \<and> data ! k AND 0x80 = 0 \<longrightarrow>
      (\<exists>u. Uleb128_init data = Inr u \<and> uleb_size u = k + 1 \<and> uleb_data u = take (k + 1) data \<and>
           Uleb128_int u = (\<Sum>i\<le>k. unat (data ! i AND 0x7f) * 2 ^ (7 * i))))
   \<and> (5 \<le> length data \<and> (\<forall>i<5. data ! i AND 0x80 \<noteq> 0) \<longrightarrow>
        Uleb128_init data = Inl BadDexFileError)
   \<and> (length data < 5 \<and> (\<forall>i<length data. data ! i AND 0x80 \<noteq> 0) \<longrightarrow>
        (\<exists>u. Uleb128_init data = Inr u \<and> uleb_size u = 0 \<and> uleb_data u = [] \<and> Uleb128_int u = 0))"
proof (intro conjI impI)
  assume a: "k < length data \<and> k < 5 \<and> (\<forall>i<k. data ! i AND 0x80 \<noteq> 0) \<and> data ! k AND 0x80 = 0"
  then have scan: "uleb_scan 0 data = Inr (k + 1)"
    using uleb_scan_found [of k data 0] by simp
  let ?u = "\<lparr>uleb_data = take (k + 1) data, uleb_size = k + 1\<rparr>"
  have init: "Uleb128_init data = Inr ?u"
    by (simp add: Uleb128_init_def bind_def scan py_slice_def)
  have len: "length (take (k + 1) data) = k + 1" using a by simp
  have "Uleb128_int ?u = (\<Sum>i<k + 1. unat (take (k + 1) data ! i AND 0x7f) * 2 ^ (7 * i))"
    unfolding Uleb128_int_def using uleb_fold_value [of "take (k + 1) data"] len by simp
  also have "\<dots> = (\<Sum>i<k + 1. unat (data ! i AND 0x7f) * 2 ^ (7 * i))"
    by (rule sum.cong) auto
  also have "\<dots> = (\<Sum>i\<le>k. unat (data ! i AND 0x7f) * 2 ^ (7 * i))"
    by (simp add: lessThan_Suc_atMost)
  finally show "\<exists>u. Uleb128_init data = Inr u \<and> uleb_size u = k + 1 \<and> uleb_data u = take (k + 1) data \<and>
           Uleb128_int u = (\<Sum>i\<le>k. unat (data ! i AND 0x7f) * 2 ^ (7 * i))"
    using init by simp
next
  assume "5 \<le> length data \<and> (\<forall>i<5. data ! i AND 0x80 \<noteq> 0)"
  then have "uleb_scan 0 data = Inl BadDexFileError"
    using uleb_scan_overlong [of 0 data] by simp
  then show "Uleb128_init data = Inl BadDexFileError"
    by (simp add: Uleb128_init_def bind_def)
next
  assume "length data < 5 \<and> (\<forall>i<length data. data ! i AND 0x80 \<noteq> 0)"
  then have "uleb_scan 0 data = Inr 0"
    using uleb_scan_truncated [of 0 data] by simp
  then show "\<exists>u. Uleb128_init data = Inr u \<and> uleb_size u = 0 \<and> uleb_data u = [] \<and> Uleb128_int u = 0"
    by (simp add: Uleb128_init_def bind_def py_slice_def Uleb128_int_def)
qed


lemma all_less_2: "(\<forall>i<(2::nat). P i) \<longleftrightarrow> P 0 \<and> P 1"
  by (auto simp: less_Suc_eq numeral_2_eq_2)

lemma all_less_5: "(\<forall>i<(5::nat). P i) \<longleftrightarrow> P 0 \<and> P 1 \<and> P 2 \<and> P 3 \<and> P 4"
proof -
  have "\<And>i::nat. i < 5 \<longleftrightarrow> i = 0 \<or> i = 1 \<or> i = 2 \<or> i = 3 \<or> i = 4" by auto
  then show ?thesis by auto
qed

text \<open>
  C4, witness: a three-byte varint followed by another byte, six bytes with the high bit
  set in the first five, and a two-byte input that ends before a terminating byte.
\<close>

theorem Uleb128_decode_witness:
  "(\<exists>u. Uleb128_init [0x80, 0x81, 0x02, 0x07] = Inr u \<and> uleb_size u = 3 \<and> Uleb128_int u = 32896)
   \<and> Uleb128_init [0x80, 0x81, 0x82, 0x83, 0x84, 0x05] = Inl BadDexFileError
   \<and> (\<exists>u. Uleb128_init [0x80, 0x81] = Inr u \<and> uleb_size u = 0 \<and> Uleb128_int u = 0)"
proof -
  let ?a = "[0x80, 0x81, 0x02, 0x07] :: byte list"
  let ?b = "[0x80, 0x81, 0x82, 0x83, 0x84, 0x05] :: byte list"
  let ?c = "[0x80, 0x81] :: byte list"
  have set2: "{..(2::nat)} = {0, 1, 2}" by auto
  have s: "(\<Sum>i\<le>(2::nat). unat (?a ! i AND 0x7f) * 2 ^ (7 * i)) = 32896"
    by (simp add: set2)
  have ha: "2 < length ?a \<and> (2::nat) < 5 \<and> (\<forall>i<2. ?a ! i AND 0x80 \<noteq> 0) \<and> ?a ! 2 AND 0x80 = 0"
    by (simp add: all_less_2)
  have hb: "5 \<le> length ?b \<and> (\<forall>i<5. ?b ! i AND 0x80 \<noteq> 0)"
    by (simp add: all_less_5)
  have hc: "length ?c < 5 \<and> (\<forall>i<length ?c. ?c ! i AND 0x80 \<noteq> 0)"
    by (simp add: less_Suc_eq)
  from ha Uleb128_decode [of 2 ?a] obtain u where
    "Uleb128_init ?a = Inr u" "uleb_size u = 2 + 1"
    "Uleb128_int u = (\<Sum>i\<le>(2::nat). unat (?a ! i AND 0x7f) * 2 ^ (7 * i))"
    by blast
  then have A: "\<exists>u. Uleb128_init ?a = Inr u \<and> uleb_size u = 3 \<and> Uleb128_int u = 32896"
    using s by simp
  from hb Uleb128_decode [of 0 ?b] have B: "Uleb128_init ?b = Inl BadDexFileError"
    by blast
  from hc Uleb128_decode [of 0 ?c] have C:
    "\<exists>u. Uleb128_init ?c = Inr u \<and> uleb_size u = 0 \<and> Uleb128_int u = 0"
    by blast
  from A B C show ?thesis by blast
qed

text \<open>
  C4, counterexample to the claim as stated: on the one-byte input \<open>0x80\<close> no terminating
  byte is found within five bytes, and the decoder does not raise.
\<close>

theorem Uleb128_truncated_counterexample:
  "Uleb128_init [0x80] = Inr \<lparr>uleb_data = [], uleb_size = 0\<rparr>"
  by (simp add: Uleb128_init_def bind_def py_slice_def)

section \<open>Properties of ranges and comprehensions\<close>

lemma range3_count:
  "0 < step \<Longrightarrow> range3 start (start + n * step) step = map (\<lambda>k. start + k * step) [0 ..< n]"
proof -
  assume s: "0 < step"
  then obtain m where m: "step = Suc m" by (cases step) auto
  have "(m + n * Suc m) div Suc m = n + m div Suc m" by (rule div_mult_self1) simp
  then have d: "(m + n * Suc m) div Suc m = n" by simp
  have e: "start + n * step - start + step - 1 = m + n * Suc m" using m by simp
  have "(start + n * step - start + step - 1) div step = n"
    by (subst e, subst m, rule d)
  then show ?thesis by (simp add: range3_def)
qed



lemma getitem_eq: "getitem xs i = (if i < length xs then Inr (xs ! i) else Inl IndexError)"
  by (simp add: getitem_def)

lemma table_eq:
  "0 < stride \<Longrightarrow> table item stride data start count
     = map (\<lambda>k. item (py_slice data (start + k * stride) (start + k * stride + stride))) [0 ..< count]"
  by (simp add: table_def range3_count comp_def)

lemma py_slice_past_end: "length xs \<le> a \<Longrightarrow> py_slice xs a b = []"
  by (simp add: py_slice_def)

lemma py_slice_truncated: "length xs \<le> b \<Longrightarrow> py_slice xs a b = drop a xs"
  by (simp add: py_slice_def)

lemma comprehend_Nil_iff: "comprehend f xs = Inr [] \<longleftrightarrow> xs = []"
  by (cases xs) (auto simp: bind_def split: sum.splits)

lemma comprehend_all_fail:
  "xs \<noteq> [] \<Longrightarrow> (\<And>x. f x = Inl e) \<Longrightarrow> comprehend f xs = Inl e"
  by (cases xs) (auto simp: bind_def)

lemma comprehend_error: "comprehend f xs = Inl e \<Longrightarrow> \<exists>x\<in>set xs. f x = Inl e"
  by (induction xs) (auto simp: bind_def split: sum.splits)

lemma range3_nonempty: "0 < n \<Longrightarrow> range3 4 (4 + n * 4) 4 \<noteq> []"
  by (simp add: range3_count)

lemma TypeCode_of_error: "TypeCode_of v = Inl e \<Longrightarrow> e = ValueError"
  by (simp add: TypeCode_of_def split: if_splits)

lemma MapList_init_error: "MapList_init d = Inl e \<Longrightarrow> e = ValueError"
  by (auto simp: MapList_init_def MapItem_init_def Let_def bind_def split: sum.splits
      dest!: comprehend_error dest: TypeCode_of_error)

lemma ClassDefItem_init_error: "ClassDefItem_init d = Inl e \<Longrightarrow> e = ValueError"
  by (auto simp: ClassDefItem_init_def bind_def AccessFlag_def split: sum.splits if_splits)

section \<open>The small container\<close>

lemma sample_header_ok: "HeaderItem_init zero_digest sample_dex = Inr sample_header"
  by (simp add: HeaderItem_init_def sample_dex_def sample_header_def zero_digest_def
      py_slice_def MAGIC_def bind_def getitem_def cont_def low6_def adler32_def adler32_step_def
      HEADER_SIZE_def endian_of_tag_def ENDIAN_CONSTANT_def REVERSE_ENDIAN_CONSTANT_def)

lemma sample_map_list: "MapList_init (drop (map_off sample_header) sample_dex) = Inr \<lparr>ml_size = 0, ml_list = []\<rparr>"
  by (simp add: sample_header_def sample_dex_def MapList_init_def py_slice_def range3_def bind_def)

lemma sample_class_defs:
  "comprehend (\<lambda>off. ClassDefItem_init (py_slice sample_dex off (off + 32)))
     (range3 (class_defs_off sample_header)
        (class_defs_off sample_header + (class_defs_size sample_header * 32)) 32) = Inr []"
  by (simp add: sample_header_def range3_def)

lemma upt_0_2: "[0 ..< 2] = [0, 1]"
  by (simp add: eval_nat_numeral)

lemma upt_0_3: "[0 ..< 3] = [0, 1, 2]"
  by (simp add: eval_nat_numeral)

lemma sample_checks:
  "py_slice sample_dex 0 4 = MAGIC \<and> sample_dex ! 7 = 0
     \<and> adler32 (drop 12 sample_dex) = from_bytes (py_slice sample_dex 8 12)
     \<and> zero_digest (drop 32 sample_dex) = py_slice sample_dex 12 32
     \<and> from_bytes (py_slice sample_dex 32 36) = length sample_dex
     \<and> from_bytes (py_slice sample_dex 36 40) = 112
     \<and> (from_bytes (py_slice sample_dex 40 44) = 0x12345678
        \<or> from_bytes (py_slice sample_dex 40 44) = 0x78563412)"
  by (simp add: sample_dex_def py_slice_def MAGIC_def adler32_def adler32_step_def zero_digest_def)

lemma sample_version:
  "8 \<le> length sample_dex \<and> utf8_decode (py_slice sample_dex 4 7) = Inr [0x30, 0x33, 0x35]"
  by (simp add: sample_dex_def py_slice_def bind_def)

section \<open>Header validation\<close>

text \<open>
  C1 (as amended). The magic is checked first: a buffer whose first four bytes are not the
  magic fails with \<open>BadDexFileError\<close>, whatever its length. With the magic in place, the
  version bytes \<open>[4,7)\<close> are decoded as UTF-8 and a failure there is the decoder's
  \<open>UnicodeDecodeError\<close>; then byte 7 is read, which raises \<open>IndexError\<close> on a buffer
  shorter than 8 bytes. For a buffer of at least 8 bytes with a decodable version, a
  header is produced exactly when the magic matches, byte 7 is zero, the Adler-32 value of
  bytes \<open>[12, end)\<close> equals the little-endian number at \<open>[8,12)\<close>, the digest of bytes
  \<open>[32, end)\<close> equals the bytes \<open>[12,32)\<close>, the number at \<open>[32,36)\<close> is the length
  of the buffer, the number at \<open>[36,40)\<close> is 112 and the number at \<open>[40,44)\<close> is one of
  the two endianness constants; otherwise the result is \<open>BadDexFileError\<close>.
\<close>

theorem header_validation:
  "(py_slice data 0 4 \<noteq> MAGIC \<longrightarrow> HeaderItem_init sha1 data = Inl BadDexFileError)
   \<and> (py_slice data 0 4 = MAGIC \<and> utf8_decode (py_slice data 4 7) = Inl e \<longrightarrow>
        HeaderItem_init sha1 data = Inl e)
   \<and> (py_slice data 0 4 = MAGIC \<and> utf8_decode (py_slice data 4 7) = Inr ver \<and> length data < 8 \<longrightarrow>
        HeaderItem_init sha1 data = Inl IndexError)
   \<and> (8 \<le> length data \<and> utf8_decode (py_slice data 4 7) = Inr ver \<longrightarrow>
        (py_slice data 0 4 = MAGIC \<and> data ! 7 = 0
           \<and> adler32 (drop 12 data) = from_bytes (py_slice data 8 12)
           \<and> sha1 (drop 32 data) = py_slice data 12 32
           \<and> from_bytes (py_slice data 32 36) = length data
           \<and> from_bytes (py_slice data 36 40) = 112
           \<and> (from_bytes (py_slice data 40 44) = 0x12345678
              \<or> from_bytes (py_slice data 40 44) = 0x78563412)
         \<longrightarrow> (\<exists>h. HeaderItem_init sha1 data = Inr h \<and> version h = ver
                  \<and> file_size h = length data
                  \<and> checksum h = from_bytes (py_slice data 8 12)
                  \<and> signature h = py_slice data 12 32))
      \<and> (\<not> (py_slice data 0 4 = MAGIC \<and> data ! 7 = 0
           \<and> adler32 (drop 12 data) = from_bytes (py_slice data 8 12)
           \<and> sha1 (drop 32 data) = py_slice data 12 32
           \<and> from_bytes (py_slice data 32 36) = length data
           \<and> from_bytes (py_slice data 36 40) = 112
           \<and> (from_bytes (py_slice data 40 44) = 0x12345678
              \<or> from_bytes (py_slice data 40 44) = 0x78563412))
         \<longrightarrow> HeaderItem_init sha1 data = Inl BadDexFileError))"
proof (intro conjI impI)
  assume "py_slice data 0 4 \<noteq> MAGIC"
  then show "HeaderItem_init sha1 data = Inl BadDexFileError"
    by (simp add: HeaderItem_init_def)
next
  assume "py_slice data 0 4 = MAGIC \<and> utf8_decode (py_slice data 4 7) = Inl e"
  then show "HeaderItem_init sha1 data = Inl e"
    by (simp add: HeaderItem_init_def bind_def)
next
  assume "py_slice data 0 4 = MAGIC \<and> utf8_decode (py_slice data 4 7) = Inr ver \<and> length data < 8"
  then show "HeaderItem_init sha1 data = Inl IndexError"
    by (simp add: HeaderItem_init_def bind_def getitem_def)
next
  assume a: "8 \<le> length data \<and> utf8_decode (py_slice data 4 7) = Inr ver"
    and c: "py_slice data 0 4 = MAGIC \<and> data ! 7 = 0
           \<and> adler32 (drop 12 data) = from_bytes (py_slice data 8 12)
           \<and> sha1 (drop 32 data) = py_slice data 12 32
           \<and> from_bytes (py_slice data 32 36) = length data
           \<and> from_bytes (py_slice data 36 40) = 112
           \<and> (from_bytes (py_slice data 40 44) = 0x12345678
              \<or> from_bytes (py_slice data 40 44) = 0x78563412)"
  from a have g: "getitem data 7 = Inr (data ! 7)" by (simp add: getitem_def)
  from c obtain en where en: "endian_of_tag (from_bytes (py_slice data 40 44)) = Inr en"
    by (auto simp: endian_of_tag_def ENDIAN_CONSTANT_def REVERSE_ENDIAN_CONSTANT_def)
  show "\<exists>h. HeaderItem_init sha1 data = Inr h \<and> version h = ver
                  \<and> file_size h = length data
                  \<and> checksum h = from_bytes (py_slice data 8 12)
                  \<and> signature h = py_slice data 12 32"
    using a c by (simp add: HeaderItem_init_def bind_def g en HEADER_SIZE_def)
next
  assume a: "8 \<le> length data \<and> utf8_decode (py_slice data 4 7) = Inr ver"
    and c: "\<not> (py_slice data 0 4 = MAGIC \<and> data ! 7 = 0
           \<and> adler32 (drop 12 data) = from_bytes (py_slice data 8 12)
           \<and> sha1 (drop 32 data) = py_slice data 12 32
           \<and> from_bytes (py_slice data 32 36) = length data
           \<and> from_bytes (py_slice data 36 40) = 112
           \<and> (from_bytes (py_slice data 40 44) = 0x12345678
              \<or> from_bytes (py_slice data 40 44) = 0x78563412))"
  from a have g: "getitem data 7 = Inr (data ! 7)" by (simp add: getitem_def)
  have en: "from_bytes (py_slice data 40 44) \<noteq> 0x12345678
      \<Longrightarrow> from_bytes (py_slice data 40 44) \<noteq> 0x78563412
      \<Longrightarrow> endian_of_tag (from_bytes (py_slice data 40 44)) = Inl BadDexFileError"
    by (simp add: endian_of_tag_def ENDIAN_CONSTANT_def REVERSE_ENDIAN_CONSTANT_def)
  show "HeaderItem_init sha1 data = Inl BadDexFileError"
    using a c en by (auto simp: HeaderItem_init_def bind_def g HEADER_SIZE_def)
qed

text \<open>
  C1, counterexample to the claim as stated: the four-byte buffer made of the magic alone
  yields no header and fails with \<open>IndexError\<close>, not with \<open>BadDexFileError\<close>.
\<close>

theorem header_short_buffer_counterexample:
  "HeaderItem_init zero_digest [0x64, 0x65, 0x78, 0x0a] = Inl IndexError"
  by (simp add: HeaderItem_init_def py_slice_def MAGIC_def bind_def getitem_def)

text \<open>
  C1, witness: the small container validates; an eight-byte buffer with a non-zero byte 7
  is rejected with \<open>BadDexFileError\<close>.
\<close>

theorem header_validation_witness:
  "(\<exists>h. HeaderItem_init zero_digest sample_dex = Inr h \<and> version h = [0x30, 0x33, 0x35]
        \<and> file_size h = length sample_dex)
   \<and> HeaderItem_init zero_digest [0x64, 0x65, 0x78, 0x0a, 0x30, 0x33, 0x35, 0x01] = Inl BadDexFileError"
proof -
  let ?bad = "[0x64, 0x65, 0x78, 0x0a, 0x30, 0x33, 0x35, 0x01] :: byte list"
  have A: "\<exists>h. HeaderItem_init zero_digest sample_dex = Inr h \<and> version h = [0x30, 0x33, 0x35]
        \<and> file_size h = length sample_dex"
    using header_validation [of sample_dex zero_digest _ "[0x30, 0x33, 0x35]"]
      sample_checks sample_version by blast
  have v: "8 \<le> length ?bad \<and> utf8_decode (py_slice ?bad 4 7) = Inr [0x30, 0x33, 0x35]"
    by (simp add: py_slice_def bind_def)
  have n: "\<not> (py_slice ?bad 0 4 = MAGIC \<and> ?bad ! 7 = 0
           \<and> adler32 (drop 12 ?bad) = from_bytes (py_slice ?bad 8 12)
           \<and> zero_digest (drop 32 ?bad) = py_slice ?bad 12 32
           \<and> from_bytes (py_slice ?bad 32 36) = length ?bad
           \<and> from_bytes (py_slice ?bad 36 40) = 112
           \<and> (from_bytes (py_slice ?bad 40 44) = 0x12345678
              \<or> from_bytes (py_slice ?bad 40 44) = 0x78563412))"
    by simp
  have B: "HeaderItem_init zero_digest ?bad = Inl BadDexFileError"
    using header_validation [of ?bad zero_digest _ "[0x30, 0x33, 0x35]"] v n by blast
  from A B show ?thesis by blast
qed

section \<open>Annotations\<close>

text \<open>
  C9. For every input, constructing an \<open>EncodedAnnotation\<close> raises (the varint's own
  \<open>BadDexFileError\<close>, or else \<open>AttributeError\<close> at \<open>get_bytes\<close>), and so does
  constructing an \<open>AnnotationElement\<close>; constructing an \<open>AnnotationOffItem\<close> raises
  \<open>AttributeError\<close>. Hence no \<open>AnnotationItem\<close> is ever decoded, and an
  \<open>AnnotationSetItem\<close> is decoded exactly when its declared size is 0, with no entries.
\<close>

theorem annotations_never_decode:
  "(EncodedAnnotation_init data = Inl BadDexFileError \<or> EncodedAnnotation_init data = Inl AttributeError)
   \<and> (AnnotationElement_init data = Inl BadDexFileError \<or> AnnotationElement_init data = Inl AttributeError)
   \<and> AnnotationOffItem_init data = Inl AttributeError
   \<and> (\<exists>e. AnnotationItem_init data = Inl e)
   \<and> (from_bytes (py_slice data 0 4) \<noteq> 0 \<longrightarrow> AnnotationSetItem_init data = Inl AttributeError)
   \<and> (from_bytes (py_slice data 0 4) = 0 \<longrightarrow>
        AnnotationSetItem_init data = Inr \<lparr>as_size = 0, as_entries = []\<rparr>)"
proof (intro conjI impI)
  show ea: "EncodedAnnotation_init data = Inl BadDexFileError \<or> EncodedAnnotation_init data = Inl AttributeError"
    for data
    by (cases "Uleb128_init data")
       (auto simp: EncodedAnnotation_init_def Uleb128_get_bytes_def bind_def dest: Uleb128_init_error)
  show "AnnotationElement_init data = Inl BadDexFileError \<or> AnnotationElement_init data = Inl AttributeError"
    by (cases "Uleb128_init data")
       (auto simp: AnnotationElement_init_def Uleb128_get_bytes_def bind_def dest: Uleb128_init_error)
  show "AnnotationOffItem_init data = Inl AttributeError"
    by (simp add: AnnotationOffItem_init_def)
  show "\<exists>e. AnnotationItem_init data = Inl e"
    using ea [of "drop 1 data"]
    by (cases "Visibility_of (from_bytes (py_slice data 0 1))")
       (auto simp: AnnotationItem_init_def bind_def)
next
  assume "from_bytes (py_slice data 0 4) \<noteq> 0"
  then have "range3 4 (4 + from_bytes (py_slice data 0 4) * 4) 4 \<noteq> []"
    by (intro range3_nonempty) simp
  then have "comprehend (\<lambda>off. AnnotationOffItem_init (py_slice data off (off + 4)))
               (range3 4 (4 + from_bytes (py_slice data 0 4) * 4) 4) = Inl AttributeError"
    by (rule comprehend_all_fail) (simp add: AnnotationOffItem_init_def)
  then show "AnnotationSetItem_init data = Inl AttributeError"
    by (simp add: AnnotationSetItem_init_def bind_def Let_def)
next
  assume "from_bytes (py_slice data 0 4) = 0"
  then show "AnnotationSetItem_init data = Inr \<lparr>as_size = 0, as_entries = []\<rparr>"
    by (simp add: AnnotationSetItem_init_def bind_def range3_def)
qed

text \<open>C9, witness: a set that declares one entry, and a set that declares none.\<close>

theorem annotations_never_decode_witness:
  "AnnotationSetItem_init [0x01, 0x00, 0x00, 0x00, 0x05, 0x00, 0x00, 0x00] = Inl AttributeError
   \<and> AnnotationSetItem_init [0x00, 0x00, 0x00, 0x00] = Inr \<lparr>as_size = 0, as_entries = []\<rparr>"
proof -
  have a: "from_bytes (py_slice [0x01, 0x00, 0x00, 0x00, 0x05, 0x00, 0x00, 0x00] 0 4) \<noteq> 0"
    by (simp add: py_slice_def)
  have b: "from_bytes (py_slice [0x00, 0x00, 0x00, 0x00] 0 4) = 0"
    by (simp add: py_slice_def)
  from a annotations_never_decode [of "[0x01, 0x00, 0x00, 0x00, 0x05, 0x00, 0x00, 0x00]"]
  have A: "AnnotationSetItem_init [0x01, 0x00, 0x00, 0x00, 0x05, 0x00, 0x00, 0x00] = Inl AttributeError"
    by blast
  from b annotations_never_decode [of "[0x00, 0x00, 0x00, 0x00]"]
  have B: "AnnotationSetItem_init [0x00, 0x00, 0x00, 0x00] = Inr \<lparr>as_size = 0, as_entries = []\<rparr>"
    by blast
  from A B show ?thesis by blast
qed

section \<open>Optional fields of a class definition\<close>

text \<open>
  The sentinel tests of the six resolvers. An optional offset (interfaces, annotations,
  class data, static values) equal to 0, and a superclass or source-file index equal to
  \<open>NO_INDEX\<close>, resolve to \<open>None\<close> whatever the buffer or table is: nothing is read.
  Otherwise the resolver indexes the table or decodes the structure at the offset, and
  the result is never \<open>None\<close>.
\<close>

lemma optional_fields_resolve:
  "(superclass_idx c = NO_INDEX \<longrightarrow> get_superclass_type_id_item c tids = Inr None)
   \<and> (source_file_idx c = NO_INDEX \<longrightarrow> get_source_file_string_id_item c sids = Inr None)
   \<and> (interfaces_off c = 0 \<longrightarrow> get_interfaces_type_list c data = Inr None)
   \<and> (annotations_off c = 0 \<longrightarrow> get_annotations_annotation_directory_item c data = Inr None)
   \<and> (class_data_off c = 0 \<longrightarrow> get_class_data_class_data_item c data = Inr None)
   \<and> (static_values_off c = 0 \<longrightarrow> get_static_values_encoded_array_item c data = Inr None)
   \<and> (superclass_idx c \<noteq> NO_INDEX \<and> superclass_idx c < length tids \<longrightarrow>
        get_superclass_type_id_item c tids = Inr (Some (tids ! superclass_idx c)))
   \<and> (source_file_idx c \<noteq> NO_INDEX \<and> source_file_idx c < length sids \<longrightarrow>
        get_source_file_string_id_item c sids = Inr (Some (sids ! source_file_idx c)))
   \<and> (interfaces_off c \<noteq> 0 \<longrightarrow>
        get_interfaces_type_list c data = Inr (Some (TypeList_init (drop (interfaces_off c) data))))
   \<and> (annotations_off c \<noteq> 0 \<and> AnnotationDirectoryItem_init (drop (annotations_off c) data) = Inr a \<longrightarrow>
        get_annotations_annotation_directory_item c data = Inr (Some a))
   \<and> (class_data_off c \<noteq> 0 \<and> ClassDataItem_init (drop (class_data_off c) data) = Inr d \<longrightarrow>
        get_class_data_class_data_item c data = Inr (Some d))
   \<and> (static_values_off c \<noteq> 0 \<longrightarrow>
        get_static_values_encoded_array_item c data
          = Inr (Some (EncodedArrayItem_init (drop (static_values_off c) data))))"
  by (simp add: get_superclass_type_id_item_def get_source_file_string_id_item_def
      get_interfaces_type_list_def get_annotations_annotation_directory_item_def
      get_class_data_class_data_item_def get_static_values_encoded_array_item_def
      getitem_def bind_def)

text \<open>
  The lemma at a class definition with all six fields at their sentinel, and at one with
  none of them at the sentinel.
\<close>

lemma optional_fields_resolve_instances:
  "get_superclass_type_id_item
      \<lparr>class_idx = 0, access_flags = 1, superclass_idx = 0xffffffff, interfaces_off = 0,
       source_file_idx = 0xffffffff, annotations_off = 0, class_data_off = 0,
       static_values_off = 0\<rparr> [] = Inr None
   \<and> get_class_data_class_data_item
      \<lparr>class_idx = 0, access_flags = 1, superclass_idx = 0xffffffff, interfaces_off = 0,
       source_file_idx = 0xffffffff, annotations_off = 0, class_data_off = 0,
       static_values_off = 0\<rparr> [0x80, 0x80, 0x80, 0x80, 0x80] = Inr None
   \<and> get_superclass_type_id_item
      \<lparr>class_idx = 0, access_flags = 1, superclass_idx = 1, interfaces_off = 2,
       source_file_idx = 0, annotations_off = 3, class_data_off = 1,
       static_values_off = 4\<rparr> [\<lparr>descriptor_idx = 7\<rparr>, \<lparr>descriptor_idx = 9\<rparr>]
       = Inr (Some \<lparr>descriptor_idx = 9\<rparr>)
   \<and> get_class_data_class_data_item
      \<lparr>class_idx = 0, access_flags = 1, superclass_idx = 1, interfaces_off = 2,
       source_file_idx = 0, annotations_off = 3, class_data_off = 1,
       static_values_off = 4\<rparr> [0x80, 0x00, 0x00, 0x00, 0x00]
       = Inr (Some \<lparr>static_fields_size = \<lparr>uleb_data = [0x00], uleb_size = 1\<rparr>,
                     instance_fields_size = \<lparr>uleb_data = [0x00], uleb_size = 1\<rparr>,
                     direct_mehtods_size = \<lparr>uleb_data = [0x00], uleb_size = 1\<rparr>,
                     virtual_methods_size = \<lparr>uleb_data = [0x00], uleb_size = 1\<rparr>,
                     static_fields = [], instance_fields = [], direct_mehtods = [],
                     virtual_methods = []\<rparr>)"
proof -
  let ?c1 = "\<lparr>class_idx = 0, access_flags = 1, superclass_idx = 0xffffffff, interfaces_off = 0,
       source_file_idx = 0xffffffff, annotations_off = 0, class_data_off = 0,
       static_values_off = 0\<rparr>"
  let ?c2 = "\<lparr>class_idx = 0, access_flags = 1, superclass_idx = 1, interfaces_off = 2,
       source_file_idx = 0, annotations_off = 3, class_data_off = 1,
       static_values_off = 4\<rparr>"
  let ?u = "\<lparr>uleb_data = [0x00 :: byte], uleb_size = 1\<rparr>"
  let ?d = "\<lparr>static_fields_size = ?u, instance_fields_size = ?u, direct_mehtods_size = ?u,
             virtual_methods_size = ?u, static_fields = [], instance_fields = [],
             direct_mehtods = [], virtual_methods = []\<rparr>"
  let ?tids = "[\<lparr>descriptor_idx = 7\<rparr>, \<lparr>descriptor_idx = 9\<rparr>]"
  have u0: "Uleb128_init [0x00, 0x00, 0x00, 0x00] = Inr ?u"
       "Uleb128_init [0x00, 0x00, 0x00] = Inr ?u"
       "Uleb128_init [0x00, 0x00] = Inr ?u"
       "Uleb128_init [0x00] = Inr ?u"
    by (simp_all add: Uleb128_init_def bind_def py_slice_def)
  have i0: "Uleb128_int ?u = 0" by (simp add: Uleb128_int_def)
  have cd: "ClassDataItem_init (drop (class_data_off ?c2) [0x80, 0x00, 0x00, 0x00, 0x00]) = Inr ?d"
    by (simp add: ClassDataItem_init_def bind_def u0 Uleb128_int_def)
  have s1: "superclass_idx ?c1 = NO_INDEX" by (simp add: NO_INDEX_def)
  have s2: "superclass_idx ?c2 \<noteq> NO_INDEX \<and> superclass_idx ?c2 < length ?tids"
    by (simp add: NO_INDEX_def)
  have z1: "class_data_off ?c1 = 0" by simp
  have z2: "class_data_off ?c2 \<noteq> 0" by simp
  have A: "get_superclass_type_id_item ?c1 [] = Inr None"
    using s1 optional_fields_resolve [of ?c1 "[]"] by blast
  have B: "get_class_data_class_data_item ?c1 [0x80, 0x80, 0x80, 0x80, 0x80] = Inr None"
    using z1 optional_fields_resolve [of ?c1 _ _ "[0x80, 0x80, 0x80, 0x80, 0x80]"] by blast
  have C: "get_superclass_type_id_item ?c2 ?tids = Inr (Some (?tids ! superclass_idx ?c2))"
    using s2 optional_fields_resolve [of ?c2 ?tids] by blast
  have D: "get_class_data_class_data_item ?c2 [0x80, 0x00, 0x00, 0x00, 0x00] = Inr (Some ?d)"
    using z2 cd optional_fields_resolve [of ?c2 _ _ "[0x80, 0x00, 0x00, 0x00, 0x00]" _ ?d] by blast
  from A B C D show ?thesis by simp
qed

text \<open>
  C6. A class definition whose annotations offset, 4, is not the sentinel and points to an
  annotation directory that declares no field annotation, one method annotation and no
  parameter annotation. The resolver does not return the directory: building the method
  annotation names the class \<open>MethodAnnotation\<close>, which the module does not define, and
  the resolver raises \<open>NameError\<close>.
\<close>

theorem annotation_directory_NameError:
  "get_annotations_annotation_directory_item
     \<lparr>class_idx = 0, access_flags = 1, superclass_idx = 0xffffffff, interfaces_off = 0,
      source_file_idx = 0xffffffff, annotations_off = 4, class_data_off = 0,
      static_values_off = 0\<rparr>
     [0x00, 0x00, 0x00, 0x00,
      0x00, 0x00, 0x00, 0x00, 0x00, 0x00, 0x00, 0x00, 0x01, 0x00, 0x00, 0x00, 0x00, 0x00, 0x00, 0x00,
      0x00, 0x00, 0x00, 0x00, 0x00, 0x00, 0x00, 0x00]
     = Inl NameError"
  by (simp add: get_annotations_annotation_directory_item_def AnnotationDirectoryItem_init_def
      py_slice_def range3_def bind_def)

section \<open>Tables and references\<close>

text \<open>
  C7. Building a table of records that hold indices into other tables never looks at
  those tables: the table has one record per declared count, decoded from its slice,
  whatever the indices are (a class-definition record is rejected only for undefined
  access-flag bits). A reference fails only when it is resolved, with \<open>IndexError\<close>,
  and exactly when the index is out of range of the table; in range, the resolver returns
  the entry.
\<close>

theorem references_resolved_lazily:
  "table TypeIdItem_init 4 data start count
     = map (\<lambda>k. TypeIdItem_init (py_slice data (start + k * 4) (start + k * 4 + 4))) [0 ..< count]
   \<and> table ProtoIdItem_init 12 data start count
     = map (\<lambda>k. ProtoIdItem_init (py_slice data (start + k * 12) (start + k * 12 + 12))) [0 ..< count]
   \<and> table FieldIdItem_init 8 data start count
     = map (\<lambda>k. FieldIdItem_init (py_slice data (start + k * 8) (start + k * 8 + 8))) [0 ..< count]
   \<and> table MethodIdItem_init 8 data start count
     = map (\<lambda>k. MethodIdItem_init (py_slice data (start + k * 8) (start + k * 8 + 8))) [0 ..< count]
   \<and> (ClassDefItem_init rec = Inl e \<longrightarrow>
        e = ValueError \<and> AccessFlag (from_bytes (py_slice rec 4 8)) = Inl ValueError)
   \<and> get_string_id_item t sids
     = (if descriptor_idx t < length sids then Inr (sids ! descriptor_idx t)
        else Inl IndexError)
   \<and> TypeItem_get_type_type_id_item ti tids
     = (if ti_type_idx ti < length tids then Inr (tids ! ti_type_idx ti)
        else Inl IndexError)
   \<and> get_shorty_string_id_item p sids
     = (if shorty_idx p < length sids then Inr (sids ! shorty_idx p)
        else Inl IndexError)
   \<and> get_return_type_type_id_item p tids
     = (if return_type_idx p < length tids then Inr (tids ! return_type_idx p)
        else Inl IndexError)
   \<and> FieldIdItem_get_class_type_id_item f tids
     = (if fi_class_idx f < length tids then Inr (tids ! fi_class_idx f)
        else Inl IndexError)
   \<and> FieldIdItem_get_type_type_id_item f tids
     = (if fi_type_idx f < length tids then Inr (tids ! fi_type_idx f)
        else Inl IndexError)
   \<and> FieldIdItem_get_name_string_id_item f sids
     = (if fi_name_idx f < length sids then Inr (sids ! fi_name_idx f)
        else Inl IndexError)
   \<and> MethodIdItem_get_class_type_id_item m tids
     = (if me_class_idx m < length tids then Inr (tids ! me_class_idx m)
        else Inl IndexError)
   \<and> MethodIdItem_get_proto_proto_id_item m pids
     = (if me_proto_idx m < length pids then Inr (pids ! me_proto_idx m)
        else Inl IndexError)
   \<and> MethodIdItem_get_name_string_id_item m sids
     = (if me_name_idx m < length sids then Inr (sids ! me_name_idx m)
        else Inl IndexError)
   \<and> get_class_type_id_item c tids
     = (if class_idx c < length tids then Inr (tids ! class_idx c)
        else Inl IndexError)"
proof -
  have cd: "ClassDefItem_init rec = Inl e \<longrightarrow>
        e = ValueError \<and> AccessFlag (from_bytes (py_slice rec 4 8)) = Inl ValueError"
    by (auto simp: ClassDefItem_init_def bind_def AccessFlag_def split: sum.splits if_splits)
  have tb:
    "table TypeIdItem_init 4 data start count
       = map (\<lambda>k. TypeIdItem_init (py_slice data (start + k * 4) (start + k * 4 + 4))) [0 ..< count]"
    "table ProtoIdItem_init 12 data start count
       = map (\<lambda>k. ProtoIdItem_init (py_slice data (start + k * 12) (start + k * 12 + 12))) [0 ..< count]"
    "table FieldIdItem_init 8 data start count
       = map (\<lambda>k. FieldIdItem_init (py_slice data (start + k * 8) (start + k * 8 + 8))) [0 ..< count]"
    "table MethodIdItem_init 8 data start count
       = map (\<lambda>k. MethodIdItem_init (py_slice data (start + k * 8) (start + k * 8 + 8))) [0 ..< count]"
    by (simp_all add: table_eq)
  note rs = get_string_id_item_def TypeItem_get_type_type_id_item_def get_shorty_string_id_item_def
        get_return_type_type_id_item_def FieldIdItem_get_class_type_id_item_def
        FieldIdItem_get_type_type_id_item_def FieldIdItem_get_name_string_id_item_def
        MethodIdItem_get_class_type_id_item_def MethodIdItem_get_proto_proto_id_item_def
        MethodIdItem_get_name_string_id_item_def get_class_type_id_item_def
  show ?thesis
    by (intro conjI cd tb) (simp_all only: rs getitem_eq)
qed

text \<open>
  C7, witness: a class-definition record with access flags \<open>0x8000\<close>; a table of two
  type ids whose first descriptor index, 5, is out of range of a string table of one
  entry: the table is built, the first reference raises when resolved and the second
  resolves.
\<close>

theorem references_resolved_lazily_witness:
  "ClassDefItem_init [0x09, 0x00, 0x00, 0x00, 0x00, 0x80, 0x00, 0x00] = Inl ValueError
   \<and> AccessFlag (from_bytes (py_slice [0x09, 0x00, 0x00, 0x00, 0x00, 0x80, 0x00, 0x00] 4 8)) = Inl ValueError
   \<and> table TypeIdItem_init 4 [0x05, 0x00, 0x00, 0x00, 0x00, 0x00, 0x00, 0x00] 0 2
       = [\<lparr>descriptor_idx = 5\<rparr>, \<lparr>descriptor_idx = 0\<rparr>]
   \<and> get_string_id_item \<lparr>descriptor_idx = 5\<rparr> [\<lparr>string_data_off = 112\<rparr>] = Inl IndexError
   \<and> get_string_id_item \<lparr>descriptor_idx = 0\<rparr> [\<lparr>string_data_off = 112\<rparr>]
       = Inr \<lparr>string_data_off = 112\<rparr>"
proof -
  let ?rec = "[0x09, 0x00, 0x00, 0x00, 0x00, 0x80, 0x00, 0x00] :: byte list"
  let ?d = "[0x05, 0x00, 0x00, 0x00, 0x00, 0x00, 0x00, 0x00] :: byte list"
  have fl: "from_bytes (py_slice ?rec 4 8) = 32768" by (simp add: py_slice_def)
  have af: "AccessFlag 32768 = Inl ValueError"
    by (simp add: AccessFlag_def)
  have h: "ClassDefItem_init ?rec = Inl ValueError"
    by (simp add: ClassDefItem_init_def bind_def fl af)
  note T1 = references_resolved_lazily [of ?d 0 2 ?rec ValueError "\<lparr>descriptor_idx = 5\<rparr>"
      "[\<lparr>string_data_off = 112\<rparr>]"]
  note T2 = references_resolved_lazily [of ?d 0 2 ?rec ValueError "\<lparr>descriptor_idx = 0\<rparr>"
      "[\<lparr>string_data_off = 112\<rparr>]"]
  have A: "AccessFlag (from_bytes (py_slice ?rec 4 8)) = Inl ValueError"
    using h T1 by blast
  have B: "table TypeIdItem_init 4 ?d 0 2
       = map (\<lambda>k. TypeIdItem_init (py_slice ?d (0 + k * 4) (0 + k * 4 + 4))) [0 ..< 2]"
    using T1 by blast
  have B': "table TypeIdItem_init 4 ?d 0 2 = [\<lparr>descriptor_idx = 5\<rparr>, \<lparr>descriptor_idx = 0\<rparr>]"
    unfolding B by (simp add: upt_0_2 TypeIdItem_init_def py_slice_def)
  have C: "get_string_id_item \<lparr>descriptor_idx = 5\<rparr> [\<lparr>string_data_off = 112\<rparr>] = Inl IndexError"
    using T1 by simp
  have D: "get_string_id_item \<lparr>descriptor_idx = 0\<rparr> [\<lparr>string_data_off = 112\<rparr>]
       = Inr \<lparr>string_data_off = 112\<rparr>"
    using T2 by simp
  from h A B' C D show ?thesis by blast
qed

text \<open>
  C10. Once the header validates, the five id tables are built for any declared offset
  and count: the only exception the rest of the parser can raise is the \<open>ValueError\<close>
  of an enumeration (map-item type code, access flags), and when map list and class
  definitions are built, the parser returns the five tables with one record per declared
  count. A record that starts at or past the end of the buffer has all fields 0; a record
  that runs over the end is read from the bytes that remain.
\<close>

theorem tables_never_raise:
  assumes "HeaderItem_init sha1 data = Inr h"
  shows "(DexParser_init sha1 data = Inl e \<longrightarrow> e = ValueError)
   \<and> (MapList_init (drop (map_off h) data) = Inr ml
      \<and> comprehend (\<lambda>off. ClassDefItem_init (py_slice data off (off + 32)))
           (range3 (class_defs_off h) (class_defs_off h + (class_defs_size h * 32)) 32) = Inr cds
      \<longrightarrow> DexParser_init sha1 data =
            Inr \<lparr>full_data = data, header = h, map_list = ml,
                 string_ids = map (\<lambda>k. StringIdItem_init
                     (py_slice data (string_ids_off h + k * 4) (string_ids_off h + k * 4 + 4)))
                     [0 ..< string_ids_size h],
                 type_ids = map (\<lambda>k. TypeIdItem_init
                     (py_slice data (type_ids_off h + k * 4) (type_ids_off h + k * 4 + 4)))
                     [0 ..< type_ids_size h],
                 proto_ids = map (\<lambda>k. ProtoIdItem_init
                     (py_slice data (proto_ids_off h + k * 12) (proto_ids_off h + k * 12 + 12)))
                     [0 ..< proto_ids_size h],
                 field_ids = map (\<lambda>k. FieldIdItem_init
                     (py_slice data (field_ids_off h + k * 8) (field_ids_off h + k * 8 + 8)))
                     [0 ..< field_ids_size h],
                 method_ids = map (\<lambda>k. MethodIdItem_init
                     (py_slice data (method_ids_off h + k * 8) (method_ids_off h + k * 8 + 8)))
                     [0 ..< method_ids_size h],
                 class_defs = cds\<rparr>)
   \<and> (length data \<le> off \<longrightarrow>
        StringIdItem_init (py_slice data off (off + 4)) = \<lparr>string_data_off = 0\<rparr>
      \<and> TypeIdItem_init (py_slice data off (off + 4)) = \<lparr>descriptor_idx = 0\<rparr>
      \<and> ProtoIdItem_init (py_slice data off (off + 12))
          = \<lparr>shorty_idx = 0, return_type_idx = 0, parameters_off = 0\<rparr>
      \<and> FieldIdItem_init (py_slice data off (off + 8))
          = \<lparr>fi_class_idx = 0, fi_type_idx = 0, fi_name_idx = 0\<rparr>
      \<and> MethodIdItem_init (py_slice data off (off + 8))
          = \<lparr>me_class_idx = 0, me_proto_idx = 0, me_name_idx = 0\<rparr>)
   \<and> (length data \<le> off + 4 \<longrightarrow>
        StringIdItem_init (py_slice data off (off + 4)) = \<lparr>string_data_off = from_bytes (drop off data)\<rparr>
      \<and> TypeIdItem_init (py_slice data off (off + 4)) = \<lparr>descriptor_idx = from_bytes (drop off data)\<rparr>)"
proof (intro conjI impI)
  assume "DexParser_init sha1 data = Inl e"
  then show "e = ValueError"
    using assms
    by (auto simp: DexParser_init_def bind_def Let_def split: sum.splits
        dest: MapList_init_error dest!: comprehend_error dest: ClassDefItem_init_error)
next
  assume "MapList_init (drop (map_off h) data) = Inr ml
      \<and> comprehend (\<lambda>off. ClassDefItem_init (py_slice data off (off + 32)))
           (range3 (class_defs_off h) (class_defs_off h + (class_defs_size h * 32)) 32) = Inr cds"
  then show "DexParser_init sha1 data =
            Inr \<lparr>full_data = data, header = h, map_list = ml,
                 string_ids = map (\<lambda>k. StringIdItem_init
                     (py_slice data (string_ids_off h + k * 4) (string_ids_off h + k * 4 + 4)))
                     [0 ..< string_ids_size h],
                 type_ids = map (\<lambda>k. TypeIdItem_init
                     (py_slice data (type_ids_off h + k * 4) (type_ids_off h + k * 4 + 4)))
                     [0 ..< type_ids_size h],
                 proto_ids = map (\<lambda>k. ProtoIdItem_init
                     (py_slice data (proto_ids_off h + k * 12) (proto_ids_off h + k * 12 + 12)))
                     [0 ..< proto_ids_size h],
                 field_ids = map (\<lambda>k. FieldIdItem_init
                     (py_slice data (field_ids_off h + k * 8) (field_ids_off h + k * 8 + 8)))
                     [0 ..< field_ids_size h],
                 method_ids = map (\<lambda>k. MethodIdItem_init
                     (py_slice data (method_ids_off h + k * 8) (method_ids_off h + k * 8 + 8)))
                     [0 ..< method_ids_size h],
                 class_defs = cds\<rparr>"
    using assms by (simp add: DexParser_init_def bind_def Let_def table_eq)
next
  assume "length data \<le> off"
  then have e: "\<And>n. py_slice data off (off + n) = []" by (simp add: py_slice_def)
  have n: "\<And>a b. py_slice ([] :: byte list) a b = []" by (simp add: py_slice_def)
  show "StringIdItem_init (py_slice data off (off + 4)) = \<lparr>string_data_off = 0\<rparr>"
    by (simp add: e StringIdItem_init_def)
  show "TypeIdItem_init (py_slice data off (off + 4)) = \<lparr>descriptor_idx = 0\<rparr>"
    by (simp add: e TypeIdItem_init_def)
  show "ProtoIdItem_init (py_slice data off (off + 12))
          = \<lparr>shorty_idx = 0, return_type_idx = 0, parameters_off = 0\<rparr>"
    unfolding e ProtoIdItem_init_def n by simp
  show "FieldIdItem_init (py_slice data off (off + 8))
          = \<lparr>fi_class_idx = 0, fi_type_idx = 0, fi_name_idx = 0\<rparr>"
    unfolding e FieldIdItem_init_def n by simp
  show "MethodIdItem_init (py_slice data off (off + 8))
          = \<lparr>me_class_idx = 0, me_proto_idx = 0, me_name_idx = 0\<rparr>"
    unfolding e MethodIdItem_init_def n by simp
next
  assume "length data \<le> off + 4"
  then have e: "py_slice data off (off + 4) = drop off data" by (simp add: py_slice_def)
  show "StringIdItem_init (py_slice data off (off + 4)) = \<lparr>string_data_off = from_bytes (drop off data)\<rparr>"
    by (simp add: e StringIdItem_init_def)
  show "TypeIdItem_init (py_slice data off (off + 4)) = \<lparr>descriptor_idx = from_bytes (drop off data)\<rparr>"
    by (simp add: e TypeIdItem_init_def)
qed

text \<open>
  C10, witness: the small container, whose tables lie mostly past the end of its 116
  bytes.
\<close>

theorem tables_never_raise_witness:
  "DexParser_init zero_digest sample_dex =
     Inr \<lparr>full_data = sample_dex, header = sample_header,
          map_list = \<lparr>ml_size = 0, ml_list = []\<rparr>,
          string_ids = [\<lparr>string_data_off = 0x04030201\<rparr>, \<lparr>string_data_off = 0\<rparr>,
                        \<lparr>string_data_off = 0\<rparr>],
          type_ids = [\<lparr>descriptor_idx = 0x0403\<rparr>],
          proto_ids = [\<lparr>shorty_idx = 0, return_type_idx = 0, parameters_off = 0\<rparr>],
          field_ids = [\<lparr>fi_class_idx = 4, fi_type_idx = 0, fi_name_idx = 0\<rparr>],
          method_ids = [\<lparr>me_class_idx = 0, me_proto_idx = 0, me_name_idx = 0\<rparr>],
          class_defs = []\<rparr>
   \<and> StringIdItem_init (py_slice sample_dex 116 (116 + 4)) = \<lparr>string_data_off = 0\<rparr>"
proof -
  note T = tables_never_raise [OF sample_header_ok, of _ "\<lparr>ml_size = 0, ml_list = []\<rparr>" "[]" 116]
  have len: "length sample_dex \<le> 116" by (simp add: sample_dex_def)
  have P: "DexParser_init zero_digest sample_dex =
            Inr \<lparr>full_data = sample_dex, header = sample_header,
                 map_list = \<lparr>ml_size = 0, ml_list = []\<rparr>,
                 string_ids = map (\<lambda>k. StringIdItem_init
                     (py_slice sample_dex (string_ids_off sample_header + k * 4)
                        (string_ids_off sample_header + k * 4 + 4)))
                     [0 ..< string_ids_size sample_header],
                 type_ids = map (\<lambda>k. TypeIdItem_init
                     (py_slice sample_dex (type_ids_off sample_header + k * 4)
                        (type_ids_off sample_header + k * 4 + 4)))
                     [0 ..< type_ids_size sample_header],
                 proto_ids = map (\<lambda>k. ProtoIdItem_init
                     (py_slice sample_dex (proto_ids_off sample_header + k * 12)
                        (proto_ids_off sample_header + k * 12 + 12)))
                     [0 ..< proto_ids_size sample_header],
                 field_ids = map (\<lambda>k. FieldIdItem_init
                     (py_slice sample_dex (field_ids_off sample_header + k * 8)
                        (field_ids_off sample_header + k * 8 + 8)))
                     [0 ..< field_ids_size sample_header],
                 method_ids = map (\<lambda>k. MethodIdItem_init
                     (py_slice sample_dex (method_ids_off sample_header + k * 8)
                        (method_ids_off sample_header + k * 8 + 8)))
                     [0 ..< method_ids_size sample_header],
                 class_defs = []\<rparr>"
    using T sample_map_list sample_class_defs by blast
  have Z: "StringIdItem_init (py_slice sample_dex 116 (116 + 4)) = \<lparr>string_data_off = 0\<rparr>"
    using T len by blast
  have sz: "string_ids_size sample_header = 3" "string_ids_off sample_header = 112"
       "type_ids_size sample_header = 1" "type_ids_off sample_header = 114"
       "proto_ids_size sample_header = 1" "proto_ids_off sample_header = 200"
       "field_ids_size sample_header = 1" "field_ids_off sample_header = 115"
       "method_ids_size sample_header = 1" "method_ids_off sample_header = 116"
    by (simp_all add: sample_header_def)
  have s: "map (\<lambda>k. StringIdItem_init (py_slice sample_dex (112 + k * 4) (112 + k * 4 + 4))) [0 ..< 3]
        = [\<lparr>string_data_off = 0x04030201\<rparr>, \<lparr>string_data_off = 0\<rparr>, \<lparr>string_data_off = 0\<rparr>]"
    by (simp add: upt_0_3 StringIdItem_init_def py_slice_def sample_dex_def)
  have t: "map (\<lambda>k. TypeIdItem_init (py_slice sample_dex (114 + k * 4) (114 + k * 4 + 4))) [0 ..< 1]
        = [\<lparr>descriptor_idx = 0x0403\<rparr>]"
    by (simp add: TypeIdItem_init_def py_slice_def sample_dex_def)
  have p: "map (\<lambda>k. ProtoIdItem_init (py_slice sample_dex (200 + k * 12) (200 + k * 12 + 12))) [0 ..< 1]
        = [\<lparr>shorty_idx = 0, return_type_idx = 0, parameters_off = 0\<rparr>]"
    by (simp add: ProtoIdItem_init_def py_slice_def sample_dex_def)
  have f: "map (\<lambda>k. FieldIdItem_init (py_slice sample_dex (115 + k * 8) (115 + k * 8 + 8))) [0 ..< 1]
        = [\<lparr>fi_class_idx = 4, fi_type_idx = 0, fi_name_idx = 0\<rparr>]"
    by (simp add: FieldIdItem_init_def py_slice_def sample_dex_def)
  have m: "map (\<lambda>k. MethodIdItem_init (py_slice sample_dex (116 + k * 8) (116 + k * 8 + 8))) [0 ..< 1]
        = [\<lparr>me_class_idx = 0, me_proto_idx = 0, me_name_idx = 0\<rparr>]"
    by (simp add: MethodIdItem_init_def py_slice_def sample_dex_def)
  show ?thesis
    unfolding P sz s t p f m using Z by simp
qed

section \<open>Corruption of a validated container\<close>

lemma or_low16: "x < 65536 \<Longrightarrow> push_bit 16 (v::nat) OR x = v * 65536 + x"
proof -
  assume x: "x < 65536"
  then have tx: "take_bit 16 x = x" by (simp add: take_bit_nat_eq_self)
  have "push_bit 16 v AND take_bit 16 x = 0"
    by (rule bit_eqI) (auto simp: bit_simps)
  then have "push_bit 16 v AND x = 0" using tx by simp
  then have "push_bit 16 v + x = push_bit 16 v OR x" by (rule disjunctive_add_eq_or)
  then show ?thesis by (simp add: push_bit_eq_mult)
qed

lemma adler32_fold_fst:
  "a < 65521 \<Longrightarrow> fst (fold adler32_step bs (a, b)) = (a + sum_list (map unat bs)) mod 65521"
proof (induction bs arbitrary: a b)
  case Nil
  then show ?case by simp
next
  case (Cons x xs)
  have "fst (fold adler32_step xs ((a + unat x) mod 65521, (b + (a + unat x) mod 65521) mod 65521))
          = ((a + unat x) mod 65521 + sum_list (map unat xs)) mod 65521"
    by (rule Cons.IH) simp
  also have "\<dots> = (a + unat x + sum_list (map unat xs)) mod 65521"
    by (simp add: mod_add_left_eq)
  finally have r: "fst (fold adler32_step xs ((a + unat x) mod 65521, (b + (a + unat x) mod 65521) mod 65521))
          = (a + unat x + sum_list (map unat xs)) mod 65521" .
  have st: "adler32_step x (a, b) = ((a + unat x) mod 65521, (b + (a + unat x) mod 65521) mod 65521)"
    by (simp add: adler32_step_def Let_def)
  show ?case by (simp add: st r add.assoc)
qed

lemma adler32_low:
  "adler32 bs mod 65536 = (1 + sum_list (map unat bs)) mod 65521"
proof -
  obtain a b where s: "fold adler32_step bs (1, 0) = (a, b)" by (cases "fold adler32_step bs (1, 0)")
  have a: "a = (1 + sum_list (map unat bs)) mod 65521"
    using adler32_fold_fst [of 1 bs 0] s by simp
  then have "a < 65521" by simp
  then have lt: "a < 65536" by simp
  have "adler32 bs = b * 65536 + a"
    unfolding adler32_def s Let_def by (simp add: or_low16 [OF lt])
  then show ?thesis using a lt by simp
qed

lemma byte_bound: "unat (b :: byte) < 256"
proof -
  have "unat b < 2 ^ LENGTH(8)" by (rule unsigned_less)
  then show ?thesis by simp
qed

lemma sum_list_update_unat:
  "j < length ys \<Longrightarrow>
     sum_list (map unat (ys[j := v])) + unat (ys ! j) = sum_list (map unat ys) + unat (v :: byte)"
proof (induction ys arbitrary: j)
  case Nil
  then show ?case by simp
next
  case (Cons y ys)
  then show ?case by (cases j) auto
qed

lemma adler32_update_differs:
  assumes "j < length ys" "v \<noteq> ys ! j"
  shows "adler32 (ys[j := v]) \<noteq> adler32 ys"
proof
  assume eq: "adler32 (ys[j := v]) = adler32 ys"
  define S where "S = sum_list (map unat ys)"
  define S' where "S' = sum_list (map unat (ys[j := v]))"
  define p where "p = unat v"
  define q where "q = unat (ys ! j)"
  have m: "(1 + S') mod 65521 = (1 + S) mod 65521"
    unfolding S_def S'_def using eq adler32_low [of ys] adler32_low [of "ys[j := v]"] by simp
  have u: "S' + q = S + p"
    unfolding S_def S'_def p_def q_def using assms(1) by (rule sum_list_update_unat)
  have ne: "p \<noteq> q" unfolding p_def q_def using assms(2) by (simp add: word_unat_eq_iff)
  have b1: "p < 256" unfolding p_def by (rule byte_bound)
  have b2: "q < 256" unfolding q_def by (rule byte_bound)
  define D where "D = int (1 + S') - int (1 + S)"
  have "int ((1 + S') mod 65521) = int ((1 + S) mod 65521)" using m by (rule arg_cong)
  then have mm: "int (1 + S') mod 65521 = int (1 + S) mod 65521"
    by (simp only: zmod_int of_nat_numeral)
  have d: "(65521 :: int) dvd D"
    unfolding D_def using mm by (rule mod_eq_dvd_iff [THEN iffD1])
  have D: "D = int p - int q"
    unfolding D_def using u by linarith
  have "D \<noteq> 0" using ne D by simp
  then have "\<bar>65521 :: int\<bar> \<le> \<bar>D\<bar>"
    using d by (rule dvd_imp_le_int)
  then show False using b1 b2 D by linarith
qed

lemma from_bytes_inj:
  "length xs = length ys \<Longrightarrow> from_bytes xs = from_bytes ys \<Longrightarrow> xs = ys"
proof (induction xs arbitrary: ys)
  case Nil
  then show ?case by simp
next
  case (Cons x xs)
  then obtain y ys' where ys: "ys = y # ys'" by (cases ys) auto
  have e: "unat x + 256 * from_bytes xs = unat y + 256 * from_bytes ys'"
    using Cons.prems(2) ys by simp
  have bx: "unat x < 256" by (rule byte_bound)
  have by': "unat y < 256" by (rule byte_bound)
  have "(unat x + 256 * from_bytes xs) mod 256 = (unat y + 256 * from_bytes ys') mod 256"
    using e by simp
  then have xy: "unat x = unat y" using bx by' by simp
  then have "from_bytes xs = from_bytes ys'" using e by simp
  then have "xs = ys'" using Cons.IH [of ys'] Cons.prems(1) ys by simp
  then show ?case using xy ys by (simp add: word_unat_eq_iff)
qed

lemma py_slice_update_outside: "b \<le> i \<Longrightarrow> py_slice (xs[i := v]) a b = py_slice xs a b"
proof (cases "a \<le> i")
  case True
  assume "b \<le> i"
  then show ?thesis using True by (simp add: py_slice_def drop_update_swap)
next
  case False
  assume "b \<le> i"
  then show ?thesis using False by (simp add: py_slice_def)
qed

lemma py_slice_update_inside:
  "a \<le> i \<Longrightarrow> py_slice (xs[i := v]) a b = (py_slice xs a b)[i - a := v]"
  by (simp add: py_slice_def drop_update_swap take_update_swap)

lemma py_slice_nth:
  "a \<le> i \<Longrightarrow> i < b \<Longrightarrow> i < length xs \<Longrightarrow> py_slice xs a b ! (i - a) = xs ! i"
  by (simp add: py_slice_def)

lemma py_slice_length: "length (py_slice xs a b) = min (b - a) (length xs - a)"
  by (simp add: py_slice_def)

lemma header_ok_facts:
  assumes "HeaderItem_init sha1 data = Inr h"
  shows "py_slice data 0 4 = MAGIC \<and> (\<exists>ver. utf8_decode (py_slice data 4 7) = Inr ver)
     \<and> 7 < length data \<and> data ! 7 = 0
     \<and> adler32 (drop 12 data) = from_bytes (py_slice data 8 12)"
  using assms
  by (auto simp: HeaderItem_init_def bind_def getitem_def split: if_splits sum.splits)

lemma DexParser_ok_header:
  "DexParser_init sha1 data = Inr p \<Longrightarrow> \<exists>h. HeaderItem_init sha1 data = Inr h"
  by (cases "HeaderItem_init sha1 data") (auto simp: DexParser_init_def bind_def)

lemma header_checksum_mismatch:
  assumes "py_slice data 0 4 = MAGIC" "utf8_decode (py_slice data 4 7) = Inr ver"
    "7 < length data" "data ! 7 = 0"
    "adler32 (drop 12 data) \<noteq> from_bytes (py_slice data 8 12)"
  shows "HeaderItem_init sha1 data = Inl BadDexFileError"
  using assms by (simp add: HeaderItem_init_def bind_def getitem_def)

lemma sample_parses: "\<exists>p. DexParser_init zero_digest sample_dex = Inr p"
  by (simp add: DexParser_init_def bind_def Let_def sample_header_ok sample_map_list
      sample_class_defs)

text \<open>
  C8. If a buffer decodes, then changing any one byte at a position from 8 onwards (the
  checksum field \<open>[8,12)\<close>, the signature field \<open>[12,32)\<close>, and everything after, which
  is what the checksum and the signature cover) to a different value makes both the header
  constructor and the parser fail with \<open>BadDexFileError\<close>: a changed checksum field no
  longer equals the Adler-32 value of the unchanged rest, and a changed byte from offset
  12 onwards changes the Adler-32 value, whose low half is one plus the sum of the bytes
  modulo 65521.
\<close>

theorem corruption_detected:
  assumes "DexParser_init sha1 data = Inr p" and "8 \<le> i" and "i < length data"
    and "v \<noteq> data ! i"
  shows "HeaderItem_init sha1 (data[i := v]) = Inl BadDexFileError
     \<and> DexParser_init sha1 (data[i := v]) = Inl BadDexFileError"
proof -
  from assms(1) obtain h where h: "HeaderItem_init sha1 data = Inr h"
    using DexParser_ok_header by blast
  from header_ok_facts [OF h] obtain ver where
    magic: "py_slice data 0 4 = MAGIC" and ver: "utf8_decode (py_slice data 4 7) = Inr ver"
    and len: "7 < length data" and b7: "data ! 7 = 0"
    and ck: "adler32 (drop 12 data) = from_bytes (py_slice data 8 12)"
    by blast
  let ?d = "data[i := v]"
  have magic': "py_slice ?d 0 4 = MAGIC"
    using assms(2) magic by (simp add: py_slice_update_outside)
  have ver': "utf8_decode (py_slice ?d 4 7) = Inr ver"
    using assms(2) ver by (simp add: py_slice_update_outside)
  have len': "7 < length ?d" using len by simp
  have b7': "?d ! 7 = 0" using assms(2) b7 by simp
  have ck': "adler32 (drop 12 ?d) \<noteq> from_bytes (py_slice ?d 8 12)"
  proof (cases "i < 12")
    case True
    have same: "drop 12 ?d = drop 12 data" using True by simp
    have upd: "py_slice ?d 8 12 = (py_slice data 8 12)[i - 8 := v]"
      using assms(2) by (rule py_slice_update_inside)
    have l: "i - 8 < length (py_slice data 8 12)"
    proof -
      have "i - 8 < 4" using True by arith
      moreover have "i - 8 < length data - 8" using assms(2,3) by arith
      ultimately show ?thesis by (simp add: py_slice_length)
    qed
    have "py_slice data 8 12 ! (i - 8) = data ! i"
      using True assms(2,3) by (simp add: py_slice_nth)
    then have "(py_slice data 8 12)[i - 8 := v] ! (i - 8) \<noteq> py_slice data 8 12 ! (i - 8)"
      using l assms(4) by simp
    then have "(py_slice data 8 12)[i - 8 := v] \<noteq> py_slice data 8 12"
      by auto
    then have "from_bytes (py_slice ?d 8 12) \<noteq> from_bytes (py_slice data 8 12)"
      using from_bytes_inj [of "py_slice ?d 8 12" "py_slice data 8 12"] upd by auto
    then show ?thesis using same ck by simp
  next
    case False
    then have i12: "12 \<le> i" by simp
    have same: "py_slice ?d 8 12 = py_slice data 8 12"
      using i12 by (rule py_slice_update_outside)
    have upd: "drop 12 ?d = (drop 12 data)[i - 12 := v]"
      using i12 by (simp add: drop_update_swap)
    have l: "i - 12 < length (drop 12 data)" using i12 assms(3) by simp
    have "drop 12 data ! (i - 12) = data ! i" using i12 assms(3) by simp
    then have "adler32 ((drop 12 data)[i - 12 := v]) \<noteq> adler32 (drop 12 data)"
      using adler32_update_differs [OF l] assms(4) by simp
    then show ?thesis using same upd ck by simp
  qed
  have H: "HeaderItem_init sha1 ?d = Inl BadDexFileError"
    using magic' ver' len' b7' ck' by (rule header_checksum_mismatch)
  then show ?thesis by (simp add: DexParser_init_def bind_def)
qed

text \<open>
  C8, witness: the small container with a byte of the checksum field, of the signature
  field and of the data changed.
\<close>

theorem corruption_detected_witness:
  "DexParser_init zero_digest (sample_dex[8 := 0x00]) = Inl BadDexFileError
   \<and> DexParser_init zero_digest (sample_dex[20 := 0x01]) = Inl BadDexFileError
   \<and> DexParser_init zero_digest (sample_dex[115 := 0xff]) = Inl BadDexFileError"
proof -
  obtain p where p: "DexParser_init zero_digest sample_dex = Inr p"
    using sample_parses by blast
  have l: "(8::nat) < length sample_dex" "(20::nat) < length sample_dex"
      "(115::nat) < length sample_dex"
    by (simp_all add: sample_dex_def)
  have n: "0x00 \<noteq> sample_dex ! 8" "0x01 \<noteq> sample_dex ! 20" "0xff \<noteq> sample_dex ! 115"
    by (simp_all add: sample_dex_def)
  have A: "DexParser_init zero_digest (sample_dex[8 := 0x00]) = Inl BadDexFileError"
    using corruption_detected [OF p _ l(1) n(1)] by simp
  have B: "DexParser_init zero_digest (sample_dex[20 := 0x01]) = Inl BadDexFileError"
    using corruption_detected [OF p _ l(2) n(2)] by simp
  have C: "DexParser_init zero_digest (sample_dex[115 := 0xff]) = Inl BadDexFileError"
    using corruption_detected [OF p _ l(3) n(3)] by simp
  from A B C show ?thesis by blast
qed

section \<open>Class data\<close>









section \<open>String data and encoded values at concrete inputs\<close>

text \<open>
  C2. The record \<open>03 61 c3 a9 62 00\<close> declares 3 UTF-16 code units; its payload is the
  4-byte UTF-8 encoding of a three-character text. \<open>StringDataItem\<close> decodes only the
  first 3 bytes of the payload and loses the last character, while the payload as a whole
  decodes to all three.
\<close>

theorem StringDataItem_truncates:
  "StringDataItem_init [0x03, 0x61, 0xC3, 0xA9, 0x62, 0x00] = Inr \<lparr>utf16size = 3, sd_data = [0x61, 0xE9]\<rparr>
   \<and> utf8_decode [0x61, 0xC3, 0xA9, 0x62] = Inr [0x61, 0xE9, 0x62]"
  by (simp add: StringDataItem_init_def bind_def py_slice_def cont_def low6_def)

text \<open>
  C5. For the header byte \<open>0x22\<close> (format \<open>VALUE_SHORT\<close>, size/arg field 1) followed by
  \<open>ff 7f\<close>, \<open>EncodedValue\<close> stores \<open>value_arg = 2\<close>, the low three bits of the byte,
  and assigns no value; \<open>(0x22 >> 5) & 0x7\<close> is 1 and the two payload bytes read as the
  signed value 32767.
\<close>

theorem EncodedValue_short_arg:
  "EncodedValue_init [0x22, 0xFF, 0x7F] = Inr \<lparr>value_arg = 2, value_type = VALUE_SHORT, ev_value = None\<rparr>
   \<and> unat (drop_bit 5 (0x22 :: byte) AND 0x7) = 1
   \<and> from_bytes_signed [0xFF, 0x7F] = 32767"
  by (simp add: EncodedValue_init_def bind_def getitem_def ValueFormat_of_def from_bytes_signed_def)

end
